theory Spec2Isabelle
  imports Complex_Main
begin

section \<open>JavaScript values used by the program\<close>

text \<open>
  Region coordinates are JavaScript numbers. They are modelled as exact rationals: every
  finite double is a rational, comparisons with 0 and 1 are exact, and after
  \<open>Math.round\<close> all further arithmetic of the program is on integers. Pixel sizes, page
  numbers and byte counts are integers. Strings are lists of 8-bit code units; the bytes
  of a \<open>Buffer\<close> are written as a \<open>string\<close> too.
\<close>

definition Math_round :: "rat \<Rightarrow> int" where
  "Math_round x = \<lfloor>x + 1 / 2\<rfloor>"

definition code_unit :: "char \<Rightarrow> nat" where
  "code_unit c = of_char c"

definition backslash :: char where
  "backslash = CHR 0x5C"

definition startsWith :: "string \<Rightarrow> string \<Rightarrow> bool" where
  "startsWith s p = (take (length p) s = p)"

definition endsWith :: "string \<Rightarrow> string \<Rightarrow> bool" where
  "endsWith s p = (length p \<le> length s \<and> drop (length s - length p) s = p)"

fun str_includes :: "string \<Rightarrow> string \<Rightarrow> bool" where
  "str_includes [] p = (p = [])"
| "str_includes (c # cs) p = (startsWith (c # cs) p \<or> str_includes cs p)"

definition is_upper :: "char \<Rightarrow> bool" where
  "is_upper c = (65 \<le> code_unit c \<and> code_unit c \<le> 90)"

definition is_lower :: "char \<Rightarrow> bool" where
  "is_lower c = (97 \<le> code_unit c \<and> code_unit c \<le> 122)"

definition is_digit :: "char \<Rightarrow> bool" where
  "is_digit c = (48 \<le> code_unit c \<and> code_unit c \<le> 57)"

text \<open>The character class \<open>[A-Za-z]\<close>.\<close>

definition is_letter :: "char \<Rightarrow> bool" where
  "is_letter c = (is_upper c \<or> is_lower c)"

text \<open>The character class \<open>[a-zA-Z0-9]\<close>.\<close>

definition is_alnum :: "char \<Rightarrow> bool" where
  "is_alnum c = (is_lower c \<or> is_upper c \<or> is_digit c)"

text \<open>The character class \<open>[A-Za-z0-9+/]\<close>.\<close>

definition is_base64_char :: "char \<Rightarrow> bool" where
  "is_base64_char c = (is_upper c \<or> is_lower c \<or> is_digit c \<or> c = CHR ''+'' \<or> c = CHR ''/'')"

text \<open>
  The character class \<open>\s\<close> on 8-bit code units: tab, line feed, vertical tab, form
  feed, carriage return, space and the no-break space U+00A0.
\<close>

definition is_space :: "char \<Rightarrow> bool" where
  "is_space c = (code_unit c \<in> {9, 10, 11, 12, 13, 32, 160})"

text \<open>\<open>s.replace(/\s+/g, '')\<close>\<close>

definition strip_whitespace :: "string \<Rightarrow> string" where
  "strip_whitespace s = filter (\<lambda>c. \<not> is_space c) s"

text \<open>
  \<open>String.prototype.toLowerCase\<close> on 8-bit code units: A-Z and the Latin-1 capitals
  U+00C0..U+00DE (without the multiplication sign U+00D7) move up by 32.
\<close>

definition lower_char :: "char \<Rightarrow> char" where
  "lower_char c =
     (let n = code_unit c
      in if (65 \<le> n \<and> n \<le> 90) \<or> (192 \<le> n \<and> n \<le> 222 \<and> n \<noteq> 215) then char_of (n + 32) else c)"

definition toLowerCase :: "string \<Rightarrow> string" where
  "toLowerCase s = map lower_char s"

text \<open>\<open>s.split('/')[1]\<close>, with the empty string standing for \<open>undefined\<close> (both are falsy).\<close>

definition split_slash_1 :: "string \<Rightarrow> string" where
  "split_slash_1 s =
     (case dropWhile (\<lambda>c. c \<noteq> CHR ''/'') s of
        [] \<Rightarrow> []
      | _ # rest \<Rightarrow> takeWhile (\<lambda>c. c \<noteq> CHR ''/'') rest)"

text \<open>Decimal rendering of an integer, as a template literal prints it.\<close>

fun show_nat :: "nat \<Rightarrow> string" where
  "show_nat n = (if n < 10 then [char_of (48 + n)] else show_nat (n div 10) @ [char_of (48 + n mod 10)])"

declare show_nat.simps [simp del]

definition show_int :: "int \<Rightarrow> string" where
  "show_int i = (if i < 0 then CHR ''-'' # show_nat (nat (- i)) else show_nat (nat i))"

subsection \<open>Base64, as Node's \<open>Buffer\<close> implements it\<close>

definition base64_alphabet :: string where
  "base64_alphabet = ''ABCDEFGHIJKLMNOPQRSTUVWXYZabcdefghijklmnopqrstuvwxyz0123456789+/''"

text \<open>
  The decoder's table: the standard and the URL-safe alphabet are both legal, every other
  character is illegal.
\<close>

definition unbase64 :: "char \<Rightarrow> nat option" where
  "unbase64 c =
     (let n = code_unit c
      in if 65 \<le> n \<and> n \<le> 90 then Some (n - 65)
         else if 97 \<le> n \<and> n \<le> 122 then Some (n - 71)
         else if 48 \<le> n \<and> n \<le> 57 then Some (n + 4)
         else if c = CHR ''+'' \<or> c = CHR ''-'' then Some 62
         else if c = CHR ''/'' \<or> c = CHR ''_'' then Some 63
         else None)"

fun sextets_to_bytes :: "nat list \<Rightarrow> nat list" where
  "sextets_to_bytes (a # b # c # d # rest) =
     (a * 4 + b div 16) # ((b mod 16) * 16 + c div 4) # ((c mod 4) * 64 + d) # sextets_to_bytes rest"
| "sextets_to_bytes [a, b, c] = [a * 4 + b div 16, (b mod 16) * 16 + c div 4]"
| "sextets_to_bytes [a, b] = [a * 4 + b div 16]"
| "sextets_to_bytes _ = []"

text \<open>
  \<open>Buffer.from(s, 'base64')\<close> never throws: it skips every illegal character, stops at
  the first \<open>=\<close> and decodes what it has.
\<close>

definition Buffer_from_base64 :: "string \<Rightarrow> string" where
  "Buffer_from_base64 s =
     map char_of (sextets_to_bytes (List.map_filter unbase64 (takeWhile (\<lambda>c. c \<noteq> CHR ''='') s)))"

fun bytes_to_base64 :: "nat list \<Rightarrow> string" where
  "bytes_to_base64 (a # b # c # rest) =
     [base64_alphabet ! (a div 4), base64_alphabet ! ((a mod 4) * 16 + b div 16),
      base64_alphabet ! ((b mod 16) * 4 + c div 64), base64_alphabet ! (c mod 64)]
     @ bytes_to_base64 rest"
| "bytes_to_base64 [a, b] =
     [base64_alphabet ! (a div 4), base64_alphabet ! ((a mod 4) * 16 + b div 16),
      base64_alphabet ! ((b mod 16) * 4), CHR ''='']"
| "bytes_to_base64 [a] =
     [base64_alphabet ! (a div 4), base64_alphabet ! ((a mod 4) * 16), CHR ''='', CHR ''='']"
| "bytes_to_base64 [] = []"

text \<open>\<open>buffer.toString('base64')\<close>\<close>

definition toString_base64 :: "string \<Rightarrow> string" where
  "toString_base64 bytes = bytes_to_base64 (map code_unit bytes)"

section \<open>External collaborators\<close>

text \<open>
  The program calls sharp (image decoding, cropping, resizing, encoding), the file system,
  an HTTP client, the URL parser and the PDF renderer pdf-to-img. None of them is part of
  the repository. Their answers are the fields of a \<open>world\<close>; what sharp does with
  the sizes of an image follows sharp's documented behaviour and is written out below.
\<close>

record metadata =
  width :: int
  height :: int
  format :: string

text \<open>
  \<open>width\<close> and \<open>height\<close> are 0 and \<open>format\<close> is empty where sharp reports
  \<open>undefined\<close>; the program only ever tests these fields for being falsy.
\<close>

datatype encoder = JpegEncoder | PngEncoder | WebpEncoder | AvifEncoder | TiffEncoder | SameFormat

text \<open>
  A \<open>Buffer\<close> is either bytes that came from outside or the output of one sharp call
  on an earlier buffer. The extract rectangle is (left, top, width, height).
\<close>

type_synonym rect = "int \<times> int \<times> int \<times> int"

datatype buffer =
    Raw string
  | Extracted buffer rect
  | Resized buffer int int
  | Encoded encoder buffer

record pdf_document =
  doc_length :: "int option"
  doc_getPage :: "int \<Rightarrow> string + string"

text \<open>
  \<open>doc_length\<close> is \<open>None\<close> when \<open>doc.length\<close> is not a number;
  \<open>doc_getPage\<close> throws (\<open>Inl\<close> the message) or returns the bytes of the PNG.
\<close>

record world =
  fs_file :: "string \<Rightarrow> (string + string) option"
  path_extname :: "string \<Rightarrow> string"
  http_get :: "string \<Rightarrow> string + (string \<times> string)"
  url_hostname :: "string \<Rightarrow> string + string"
  sharp_header :: "string \<Rightarrow> string + metadata"
  sharp_encode_error :: "encoder \<Rightarrow> buffer \<Rightarrow> string option"
  sharp_output_length :: "buffer \<Rightarrow> nat"
  pdf_open :: "string \<Rightarrow> rat \<Rightarrow> string + pdf_document"
  toLocaleString :: "int \<Rightarrow> string"

text \<open>
  \<^item> \<open>fs_file p\<close> is \<open>None\<close> when \<open>fs.existsSync(p)\<close> is false; otherwise
    \<open>fs.readFileSync(p)\<close> throws or returns the bytes.
  \<^item> \<open>http_get u\<close> is \<open>axios.get\<close>: it throws or returns the body and the
    content-type header (empty when there is none).
  \<^item> \<open>url_hostname u\<close> is \<open>new URL(u).hostname\<close>, which throws on a malformed URL.
  \<^item> \<open>sharp_header bytes\<close> is \<open>sharp(bytes).metadata()\<close> on bytes from outside.
  \<^item> \<open>sharp_encode_error e b\<close> is the message of the exception, if the encoder throws.
  \<^item> \<open>pdf_open input scale\<close> is \<open>pdf(input, {scale})\<close>.
\<close>

text \<open>
  sharp's \<open>resize({width, height, fit: 'inside', withoutEnlargement: true})\<close>: both axes
  shrink by the larger of the two ratios, never by less than 1, and no axis is sent to 0.
\<close>

definition shrink_of :: "int \<Rightarrow> int \<Rightarrow> int \<Rightarrow> int \<Rightarrow> rat" where
  "shrink_of w h tw th = max 1 (max (of_int w / of_int tw) (of_int h / of_int th))"

definition inside_size :: "int \<Rightarrow> int \<Rightarrow> int \<Rightarrow> int \<Rightarrow> int \<times> int" where
  "inside_size w h tw th =
     (let shrink = shrink_of w h tw th;
          hshrink = min shrink (of_int w);
          vshrink = min shrink (of_int h)
      in (Math_round (of_int w / hshrink), Math_round (of_int h / vshrink)))"

definition encoder_format :: "encoder \<Rightarrow> string \<Rightarrow> string" where
  "encoder_format e f =
     (case e of JpegEncoder \<Rightarrow> ''jpeg'' | PngEncoder \<Rightarrow> ''png'' | WebpEncoder \<Rightarrow> ''webp''
      | AvifEncoder \<Rightarrow> ''heif'' | TiffEncoder \<Rightarrow> ''tiff'' | SameFormat \<Rightarrow> f)"

text \<open>\<open>sharp(buffer).metadata()\<close>\<close>

fun sharp_metadata :: "world \<Rightarrow> buffer \<Rightarrow> string + metadata" where
  "sharp_metadata W (Raw bytes) = sharp_header W bytes"
| "sharp_metadata W (Extracted b (l, t, w, h)) =
     (case sharp_metadata W b of Inl e \<Rightarrow> Inl e
      | Inr m \<Rightarrow> Inr (m\<lparr>width := w, height := h\<rparr>))"
| "sharp_metadata W (Resized b tw th) =
     (case sharp_metadata W b of Inl e \<Rightarrow> Inl e
      | Inr m \<Rightarrow> Inr (m\<lparr>width := fst (inside_size (width m) (height m) tw th),
                        height := snd (inside_size (width m) (height m) tw th)\<rparr>))"
| "sharp_metadata W (Encoded e b) =
     (case sharp_metadata W b of Inl e' \<Rightarrow> Inl e'
      | Inr m \<Rightarrow> Inr (m\<lparr>format := encoder_format e (format m)\<rparr>))"

text \<open>
  \<open>sharp(buffer).extract({left, top, width, height}).toBuffer()\<close> rejects an input it
  cannot decode and a rectangle that is not inside the image.
\<close>

definition sharp_extract :: "world \<Rightarrow> buffer \<Rightarrow> rect \<Rightarrow> string + buffer" where
  "sharp_extract W b r =
     (case sharp_metadata W b of Inl e \<Rightarrow> Inl e
      | Inr m \<Rightarrow>
          (case r of (l, t, w, h) \<Rightarrow>
             if 0 \<le> l \<and> 0 \<le> t \<and> 0 < w \<and> 0 < h \<and> l + w \<le> width m \<and> t + h \<le> height m
             then Inr (Extracted b r)
             else Inl ''extract_area: bad extract area''))"

text \<open>sharp's \<open>resize\<close> wants positive sizes.\<close>

definition sharp_resize_inside :: "world \<Rightarrow> buffer \<Rightarrow> int \<Rightarrow> int \<Rightarrow> string + buffer" where
  "sharp_resize_inside W b tw th =
     (case sharp_metadata W b of Inl e \<Rightarrow> Inl e
      | Inr m \<Rightarrow>
          if tw \<le> 0 then Inl (''Expected positive integer for width but received '' @ show_int tw)
          else if th \<le> 0 then Inl (''Expected positive integer for height but received '' @ show_int th)
          else Inr (Resized b tw th))"

definition sharp_toBuffer :: "world \<Rightarrow> encoder \<Rightarrow> buffer \<Rightarrow> string + buffer" where
  "sharp_toBuffer W e b =
     (case sharp_metadata W b of Inl msg \<Rightarrow> Inl msg
      | Inr m \<Rightarrow> (case sharp_encode_error W e b of Some msg \<Rightarrow> Inl msg | None \<Rightarrow> Inr (Encoded e b)))"

text \<open>\<open>buffer.length\<close>\<close>

definition buffer_length :: "world \<Rightarrow> buffer \<Rightarrow> int" where
  "buffer_length W b = (case b of Raw bytes \<Rightarrow> int (length bytes) | _ \<Rightarrow> int (sharp_output_length W b))"

section \<open>image-utils.ts\<close>

text \<open>
  The configuration read from the environment when the module loads. Each setting is taken
  as the integer \<open>parseInt\<close> returns on a decimal setting (the defaults are 52428800,
  512, 512 and 150).
\<close>

record config =
  MAX_IMAGE_SIZE :: int
  ALLOWED_DOMAINS :: "string list"
  DEFAULT_MAX_WIDTH :: int
  DEFAULT_MAX_HEIGHT :: int
  PDF_DPI :: int

datatype jvalue = JNum int | JStr string

type_synonym json_object = "(string \<times> jvalue) list"

text \<open>
  A tool response. \<open>MetadataPart obj\<close> is the text part whose text is
  \<open>JSON.stringify(obj)\<close>; \<open>ImagePart b m\<close> is the image part whose data is the
  base64 text of the buffer \<open>b\<close>.
\<close>

datatype part = TextPart string | MetadataPart json_object | ImagePart buffer string

record McpToolResponse =
  content :: "part list"
  isError :: bool

text \<open>The error result every entry point builds: one text part and the error flag.\<close>

definition error_result :: "string \<Rightarrow> McpToolResponse" where
  "error_result msg = \<lparr>content = [TextPart msg], isError = True\<rparr>"

text \<open>
  The \<open>catch\<close> block of an entry point. A call that throws is \<open>Inl\<close> the message
  of the exception.
\<close>

definition catch_error :: "string + McpToolResponse \<Rightarrow> McpToolResponse" where
  "catch_error r = (case r of Inl msg \<Rightarrow> error_result (''Error: '' @ msg) | Inr res \<Rightarrow> res)"

text \<open>Assignment to a property of an object, and the spread of one object into another.\<close>

fun obj_set :: "json_object \<Rightarrow> string \<Rightarrow> jvalue \<Rightarrow> json_object" where
  "obj_set [] k v = [(k, v)]"
| "obj_set ((k', v') # rest) k v = (if k' = k then (k, v) # rest else (k', v') # obj_set rest k v)"

definition obj_spread :: "json_object \<Rightarrow> json_object \<Rightarrow> json_object" where
  "obj_spread obj extra = foldl (\<lambda>acc kv. obj_set acc (fst kv) (snd kv)) obj extra"

fun obj_get :: "json_object \<Rightarrow> string \<Rightarrow> jvalue option" where
  "obj_get [] k = None"
| "obj_get ((k', v') # rest) k = (if k' = k then Some v' else obj_get rest k)"

text \<open>The object without one property.\<close>

fun obj_delete :: "json_object \<Rightarrow> string \<Rightarrow> json_object" where
  "obj_delete [] k = []"
| "obj_delete ((k', v') # rest) k = (if k' = k then obj_delete rest k else (k', v') # obj_delete rest k)"

definition compressImage :: "world \<Rightarrow> buffer \<Rightarrow> string \<Rightarrow> string + buffer" where
  "compressImage W imageBuffer formatStr =
     (let fmt = toLowerCase formatStr
      in if fmt = ''jpeg'' \<or> fmt = ''jpg'' then sharp_toBuffer W JpegEncoder imageBuffer
         else if fmt = ''png'' then sharp_toBuffer W PngEncoder imageBuffer
         else if fmt = ''webp'' then sharp_toBuffer W WebpEncoder imageBuffer
         else if fmt = ''avif'' then sharp_toBuffer W AvifEncoder imageBuffer
         else if fmt = ''tiff'' then sharp_toBuffer W TiffEncoder imageBuffer
         else if fmt = ''gif'' \<or> fmt = ''svg'' then sharp_toBuffer W SameFormat imageBuffer
         else sharp_toBuffer W JpegEncoder imageBuffer)"

definition isRatio :: "rat list \<Rightarrow> bool" where
  "isRatio values = list_all (\<lambda>v. v \<ge> 0 \<and> v \<le> 1) values"

text \<open>\<open>a && a.length === 4\<close>\<close>

definition has_length_4 :: "rat list option \<Rightarrow> bool" where
  "has_length_4 a = (case a of None \<Rightarrow> False | Some vs \<Rightarrow> length vs = 4)"

text \<open>
  The two branches of \<open>applyImageFocus\<close> that turn the four numbers into left, top,
  width and height. On a list of another length (excluded by the caller's test) the
  variables keep their initial values.
\<close>

fun focus_xyxy_rect :: "metadata \<Rightarrow> rat list \<Rightarrow> rect" where
  "focus_xyxy_rect md [x1, y1, x2, y2] =
     (if isRatio [x1, y1, x2, y2]
      then (Math_round (x1 * of_int (width md)), Math_round (y1 * of_int (height md)),
            Math_round ((x2 - x1) * of_int (width md)), Math_round ((y2 - y1) * of_int (height md)))
      else (Math_round x1, Math_round y1, Math_round (x2 - x1), Math_round (y2 - y1)))"
| "focus_xyxy_rect md vs = (0, 0, width md, height md)"

fun focal_point_rect :: "metadata \<Rightarrow> rat list \<Rightarrow> rect" where
  "focal_point_rect md [cx, cy, hw, hh] =
     (if isRatio [cx, cy, hw, hh]
      then (let pixelCx = cx * of_int (width md); pixelCy = cy * of_int (height md);
                pixelHw = hw * of_int (width md); pixelHh = hh * of_int (height md)
            in (Math_round (pixelCx - pixelHw), Math_round (pixelCy - pixelHh),
                Math_round (pixelHw * 2), Math_round (pixelHh * 2)))
      else (Math_round (cx - hw), Math_round (cy - hh), Math_round (hw * 2), Math_round (hh * 2)))"
| "focal_point_rect md vs = (0, 0, width md, height md)"

text \<open>The rectangle before clamping; \<open>None\<close> when \<open>shouldCrop\<close> stays false.\<close>

definition focus_rect :: "metadata \<Rightarrow> rat list option \<Rightarrow> rat list option \<Rightarrow> rect option" where
  "focus_rect md focus_xyxy focal_point =
     (if has_length_4 focus_xyxy then map_option (focus_xyxy_rect md) focus_xyxy
      else if has_length_4 focal_point then map_option (focal_point_rect md) focal_point
      else None)"

text \<open>The block under \<open>// Clamp coordinates\<close>.\<close>

definition clamp_rect :: "metadata \<Rightarrow> rect \<Rightarrow> rect" where
  "clamp_rect md r =
     (case r of (left0, top0, width0, height0) \<Rightarrow>
        let left' = max 0 left0;
            top' = max 0 top0;
            width' = (if left' + width0 > width md then width md - left' else width0);
            height' = (if top' + height0 > height md then height md - top' else height0)
        in (left', top', width', height'))"

text \<open>\<open>Inr None\<close> stands for returning \<open>null\<close>.\<close>

definition applyImageFocus ::
  "world \<Rightarrow> buffer \<Rightarrow> metadata \<Rightarrow> rat list option \<Rightarrow> rat list option \<Rightarrow> string + buffer option" where
  "applyImageFocus W imageBuffer md focus_xyxy focal_point =
     (if \<not> has_length_4 focus_xyxy \<and> \<not> has_length_4 focal_point then Inr None
      else if width md = 0 \<or> height md = 0 then Inr None
      else
        (case focus_rect md focus_xyxy focal_point of
           None \<Rightarrow> Inr None
         | Some r \<Rightarrow>
             (case clamp_rect md r of (left', top', width', height') \<Rightarrow>
                if width' > 0 \<and> height' > 0
                then (case sharp_extract W imageBuffer (left', top', width', height') of
                        Inl e \<Rightarrow> Inl e | Inr b \<Rightarrow> Inr (Some b))
                else Inr None)))"

definition getMimeAndFormat :: "string \<Rightarrow> string \<times> string" where
  "getMimeAndFormat fileExt =
     (if fileExt = ''.png'' then (''image/png'', ''png'')
      else if fileExt = ''.jpg'' \<or> fileExt = ''.jpeg'' then (''image/jpeg'', ''jpeg'')
      else if fileExt = ''.gif'' then (''image/gif'', ''gif'')
      else if fileExt = ''.webp'' then (''image/webp'', ''webp'')
      else if fileExt = ''.svg'' then (''image/png'', ''png'')
      else if fileExt = ''.avif'' then (''image/avif'', ''avif'')
      else (''image/jpeg'', ''jpeg''))"

text \<open>\<open>Inr None\<close> is \<open>null\<close> (the domain is allowed), \<open>Inr (Some msg)\<close> the error text.\<close>

definition validateDomain :: "world \<Rightarrow> config \<Rightarrow> string \<Rightarrow> string + string option" where
  "validateDomain W C url =
     (if ALLOWED_DOMAINS C = [] then Inr None
      else
        (case url_hostname W url of
           Inl e \<Rightarrow> Inl e
         | Inr domain \<Rightarrow>
             if list_ex (\<lambda>allowedDomain. domain = allowedDomain \<or> endsWith domain (''.'' @ allowedDomain))
                  (ALLOWED_DOMAINS C)
             then Inr None
             else Inr (Some (''Error: Domain '' @ domain @ '' is not in the allowed domains list''))))"

text \<open>The three stages of \<open>processImageBuffer\<close>, each on the buffer and its metadata.\<close>

definition focus_step ::
  "world \<Rightarrow> buffer \<Rightarrow> metadata \<Rightarrow> rat list option \<Rightarrow> rat list option \<Rightarrow> string + (buffer \<times> metadata)" where
  "focus_step W imageBuffer md focus_xyxy focal_point =
     (case applyImageFocus W imageBuffer md focus_xyxy focal_point of
        Inl e \<Rightarrow> Inl e
      | Inr None \<Rightarrow> Inr (imageBuffer, md)
      | Inr (Some focusedBuffer) \<Rightarrow>
          (case sharp_metadata W focusedBuffer of
             Inl e \<Rightarrow> Inl e
           | Inr md' \<Rightarrow> Inr (focusedBuffer, md')))"

definition resize_step :: "world \<Rightarrow> config \<Rightarrow> buffer \<Rightarrow> metadata \<Rightarrow> string + (buffer \<times> metadata)" where
  "resize_step W C imageBuffer md =
     (if width md \<noteq> 0 \<and> height md \<noteq> 0
      then
        (let targetWidth = min (width md) (DEFAULT_MAX_WIDTH C);
             targetHeight = min (height md) (DEFAULT_MAX_HEIGHT C)
         in if width md > targetWidth \<or> height md > targetHeight
            then
              (case sharp_resize_inside W imageBuffer targetWidth targetHeight of
                 Inl e \<Rightarrow> Inl e
               | Inr resized \<Rightarrow>
                   (case sharp_metadata W resized of
                      Inl e \<Rightarrow> Inl e
                    | Inr md' \<Rightarrow> Inr (resized, md')))
            else Inr (imageBuffer, md))
      else Inr (imageBuffer, md))"

text \<open>The \<open>try\<close> around \<open>compressImage\<close>: on an exception the buffer stays as it was.\<close>

definition compress_step :: "world \<Rightarrow> buffer \<Rightarrow> string \<Rightarrow> buffer" where
  "compress_step W imageBuffer fmt =
     (case compressImage W imageBuffer fmt of Inl compressionError \<Rightarrow> imageBuffer | Inr compressed \<Rightarrow> compressed)"

definition large_image_info :: "world \<Rightarrow> int \<Rightarrow> int \<Rightarrow> string" where
  "large_image_info W originalWidth originalHeight =
     ''Large image detected ('' @ show_int originalWidth @ ''x'' @ show_int originalHeight @ '' = ''
     @ toLocaleString W (originalWidth * originalHeight)
     @ '' pixels). Consider using focus_xyxy or focal_point to zoom into specific regions for better detail recognition and reduced token usage.''"

definition processImageBuffer ::
  "world \<Rightarrow> config \<Rightarrow> buffer \<Rightarrow> string \<Rightarrow> string \<Rightarrow> rat list option \<Rightarrow> rat list option \<Rightarrow> json_object
   \<Rightarrow> string + McpToolResponse" where
  "processImageBuffer W C imageBuffer fmt mimeType focus_xyxy focal_point extraMetadata =
     (case sharp_metadata W imageBuffer of
        Inl e \<Rightarrow> Inl e
      | Inr md0 \<Rightarrow>
          (let originalWidth = width md0;
               originalHeight = height md0;
               originalPixels = originalWidth * originalHeight;
               hasFocus = (focus_xyxy \<noteq> None \<or> focal_point \<noteq> None)
           in case focus_step W imageBuffer md0 focus_xyxy focal_point of
                Inl e \<Rightarrow> Inl e
              | Inr (focused, md1) \<Rightarrow>
                  (case resize_step W C focused md1 of
                     Inl e \<Rightarrow> Inl e
                   | Inr (resized, md2) \<Rightarrow>
                       (let final = compress_step W resized fmt;
                            resultMetadata =
                              obj_spread
                                [(''width'', JNum (width md2)), (''height'', JNum (height md2)),
                                 (''format'', JStr (format md2)), (''size'', JNum (buffer_length W final))]
                                extraMetadata;
                            resultMetadata' =
                              (if originalPixels > 300000 \<and> \<not> hasFocus
                               then obj_set resultMetadata ''info''
                                      (JStr (large_image_info W originalWidth originalHeight))
                               else resultMetadata)
                        in Inr \<lparr>content = [MetadataPart resultMetadata', ImagePart final mimeType],
                                isError = False\<rparr>))))"

text \<open>
  The parameter records of the tools. \<open>resize\<close>, \<open>max_width\<close> and \<open>max_height\<close>
  are fields of the six \<open>extract_\<close> tools; the region fields are shared by all.
\<close>

record region_params =
  focus_xyxy :: "rat list option"
  focal_point :: "rat list option"

record legacy_params = region_params +
  resize :: bool
  max_width :: rat
  max_height :: rat

record ExtractImageFromFileParams = legacy_params +
  file_path :: string

record ExtractImageFromUrlParams = legacy_params +
  url :: string

record ExtractImageFromBase64Params = legacy_params +
  base64 :: string
  mime_type :: string

definition size_error :: "string \<Rightarrow> config \<Rightarrow> McpToolResponse" where
  "size_error what C =
     error_result (''Error: '' @ what @ '' size exceeds maximum allowed size of ''
                   @ show_int (MAX_IMAGE_SIZE C) @ '' bytes'')"

definition extractImageFromFile :: "world \<Rightarrow> config \<Rightarrow> ExtractImageFromFileParams \<Rightarrow> McpToolResponse" where
  "extractImageFromFile W C params =
     catch_error
       (case fs_file W (file_path params) of
          None \<Rightarrow> Inr (error_result (''Error: File '' @ file_path params @ '' does not exist''))
        | Some (Inl e) \<Rightarrow> Inl e
        | Some (Inr bytes) \<Rightarrow>
            if int (length bytes) > MAX_IMAGE_SIZE C then Inr (size_error ''Image'' C)
            else
              (let fileExt = toLowerCase (path_extname W (file_path params))
               in case getMimeAndFormat fileExt of (mimeType, fmt) \<Rightarrow>
                    processImageBuffer W C (Raw bytes) fmt mimeType
                      (focus_xyxy params) (focal_point params) []))"

definition extractImageFromUrl :: "world \<Rightarrow> config \<Rightarrow> ExtractImageFromUrlParams \<Rightarrow> McpToolResponse" where
  "extractImageFromUrl W C params =
     catch_error
       (if \<not> startsWith (url params) ''http://'' \<and> \<not> startsWith (url params) ''https://''
        then Inr (error_result ''Error: URL must start with http:// or https://'')
        else
          (case validateDomain W C (url params) of
             Inl e \<Rightarrow> Inl e
           | Inr (Some domainError) \<Rightarrow> Inr (error_result domainError)
           | Inr None \<Rightarrow>
               (case http_get W (url params) of
                  Inl e \<Rightarrow> Inl e
                | Inr (body, contentType) \<Rightarrow>
                    (let mimeType = (if contentType = [] then ''image/jpeg'' else contentType)
                     in case sharp_metadata W (Raw body) of
                          Inl e \<Rightarrow> Inl e
                        | Inr md \<Rightarrow>
                            processImageBuffer W C (Raw body)
                              (if format md = [] then ''jpeg'' else format md) mimeType
                              (focus_xyxy params) (focal_point params) []))))"

definition extractImageFromBase64 :: "world \<Rightarrow> config \<Rightarrow> ExtractImageFromBase64Params \<Rightarrow> McpToolResponse" where
  "extractImageFromBase64 W C params =
     catch_error
       (let bytes = Buffer_from_base64 (base64 params)
        in if length bytes = 0
           then Inr (error_result
                  ''Error: Invalid base64 string - Invalid base64 string - decoded to empty buffer'')
           else if int (length bytes) > MAX_IMAGE_SIZE C then Inr (size_error ''Image'' C)
           else
             (case sharp_metadata W (Raw bytes) of
                Inl e \<Rightarrow> Inr (error_result (''Error: Could not process image data - '' @ e))
              | Inr md \<Rightarrow>
                  (let fmt = (if format md \<noteq> [] then format md
                              else if split_slash_1 (mime_type params) \<noteq> [] then split_slash_1 (mime_type params)
                              else ''jpeg'')
                   in processImageBuffer W C (Raw bytes) fmt (mime_type params)
                        (focus_xyxy params) (focal_point params) [])))"

section \<open>pdf-utils.ts\<close>

definition cleanBase64 :: "string \<Rightarrow> string" where
  "cleanBase64 b = strip_whitespace b"

text \<open>
  The regular expression \<open>/^[A-Za-z0-9+/]+={0,2}$/\<close>: a non-empty run of alphabet
  characters, then at most two \<open>=\<close>, then the end of the string.
\<close>

definition base64_regex :: "string \<Rightarrow> bool" where
  "base64_regex s =
     (let body = takeWhile is_base64_char s; padding = dropWhile is_base64_char s
      in body \<noteq> [] \<and> (padding = [] \<or> padding = ''='' \<or> padding = ''==''))"

definition pdf_utils_isValidBase64 :: "string \<Rightarrow> bool" where
  "pdf_utils_isValidBase64 b =
     (let b64 = cleanBase64 b
      in if length b64 = 0 then False
         else if length b64 mod 4 \<noteq> 0 then False
         else base64_regex b64)"

definition PDF_SCALE :: "config \<Rightarrow> rat" where
  "PDF_SCALE C = (if PDF_DPI C > 0 then of_int (PDF_DPI C) / 72 else 150 / 72)"

text \<open>
  The body shared by \<open>renderPdfPageFromInput\<close> and \<open>renderPdfPage\<close> after the
  document is opened.
\<close>

definition render_opened :: "pdf_document \<Rightarrow> int \<Rightarrow> string + (buffer \<times> int)" where
  "render_opened doc pageNum =
     (let pageCount = (case doc_length doc of Some n \<Rightarrow> n | None \<Rightarrow> 0)
      in if pageCount = 0 then Inl ''Failed to determine PDF page count''
         else if pageNum < 1 \<or> pageNum > pageCount
         then Inl (''Page '' @ show_int pageNum @ '' is out of range. Document has ''
                   @ show_int pageCount @ '' page(s).'')
         else (case doc_getPage doc pageNum of
                 Inl e \<Rightarrow> Inl e
               | Inr pageData \<Rightarrow> Inr (Raw pageData, pageCount)))"

definition renderPdfPageFromInput :: "world \<Rightarrow> config \<Rightarrow> string \<Rightarrow> int \<Rightarrow> string + (buffer \<times> int)" where
  "renderPdfPageFromInput W C input pageNum =
     (case pdf_open W input (PDF_SCALE C) of
        Inl e \<Rightarrow> Inl e
      | Inr doc \<Rightarrow> render_opened doc pageNum)"

definition pdf_extra_metadata :: "int \<Rightarrow> int \<Rightarrow> int \<Rightarrow> json_object" where
  "pdf_extra_metadata pg pageCount dpi =
     [(''source'', JStr ''pdf''), (''page'', JNum pg), (''totalPages'', JNum pageCount), (''dpi'', JNum dpi)]"

record ExtractPdfFromFileParams = legacy_params +
  file_path :: string
  page :: int

record ExtractPdfFromUrlParams = legacy_params +
  url :: string
  page :: int

record ExtractPdfFromBase64Params = legacy_params +
  base64 :: string
  page :: int

definition pdf_data_url :: "string \<Rightarrow> string" where
  "pdf_data_url b64 = ''data:application/pdf;base64,'' @ b64"

definition extractPdfFromFile :: "world \<Rightarrow> config \<Rightarrow> ExtractPdfFromFileParams \<Rightarrow> McpToolResponse" where
  "extractPdfFromFile W C params =
     catch_error
       (case fs_file W (ExtractPdfFromFileParams.file_path params) of
          None \<Rightarrow> Inr (error_result (''Error: File '' @ ExtractPdfFromFileParams.file_path params
                                     @ '' does not exist''))
        | Some (Inl e) \<Rightarrow> Inl e
        | Some (Inr pdfBuffer) \<Rightarrow>
            if int (length pdfBuffer) > MAX_IMAGE_SIZE C then Inr (size_error ''PDF'' C)
            else
              (case renderPdfPageFromInput W C (ExtractPdfFromFileParams.file_path params)
                      (ExtractPdfFromFileParams.page params) of
                 Inl e \<Rightarrow> Inl e
               | Inr (pngBuffer, pageCount) \<Rightarrow>
                   processImageBuffer W C pngBuffer ''png'' ''image/png''
                     (focus_xyxy params) (focal_point params)
                     (pdf_extra_metadata (ExtractPdfFromFileParams.page params) pageCount (PDF_DPI C))))"

definition extractPdfFromUrl :: "world \<Rightarrow> config \<Rightarrow> ExtractPdfFromUrlParams \<Rightarrow> McpToolResponse" where
  "extractPdfFromUrl W C params =
     catch_error
       (if \<not> startsWith (ExtractPdfFromUrlParams.url params) ''http://''
           \<and> \<not> startsWith (ExtractPdfFromUrlParams.url params) ''https://''
        then Inr (error_result ''Error: URL must start with http:// or https://'')
        else
          (case validateDomain W C (ExtractPdfFromUrlParams.url params) of
             Inl e \<Rightarrow> Inl e
           | Inr (Some domainError) \<Rightarrow> Inr (error_result domainError)
           | Inr None \<Rightarrow>
               (case http_get W (ExtractPdfFromUrlParams.url params) of
                  Inl e \<Rightarrow> Inl e
                | Inr (pdfBuffer, contentType) \<Rightarrow>
                    if int (length pdfBuffer) > MAX_IMAGE_SIZE C then Inr (size_error ''PDF'' C)
                    else
                      (case renderPdfPageFromInput W C (pdf_data_url (toString_base64 pdfBuffer))
                              (ExtractPdfFromUrlParams.page params) of
                         Inl e \<Rightarrow> Inl e
                       | Inr (pngBuffer, pageCount) \<Rightarrow>
                           processImageBuffer W C pngBuffer ''png'' ''image/png''
                             (focus_xyxy params) (focal_point params)
                             (pdf_extra_metadata (ExtractPdfFromUrlParams.page params) pageCount
                                (PDF_DPI C))))))"

definition extractPdfFromBase64 :: "world \<Rightarrow> config \<Rightarrow> ExtractPdfFromBase64Params \<Rightarrow> McpToolResponse" where
  "extractPdfFromBase64 W C params =
     catch_error
       (if \<not> pdf_utils_isValidBase64 (ExtractPdfFromBase64Params.base64 params)
        then Inr (error_result ''Error: Invalid base64 string'')
        else
          (let base64Clean = cleanBase64 (ExtractPdfFromBase64Params.base64 params);
               pdfBuffer = Buffer_from_base64 base64Clean
           in if length pdfBuffer = 0
              then Inr (error_result ''Error: Invalid base64 string - decoded to empty buffer'')
              else if int (length pdfBuffer) > MAX_IMAGE_SIZE C then Inr (size_error ''PDF'' C)
              else
                (case renderPdfPageFromInput W C (pdf_data_url base64Clean)
                        (ExtractPdfFromBase64Params.page params) of
                   Inl e \<Rightarrow> Inl e
                 | Inr (pngBuffer, pageCount) \<Rightarrow>
                     processImageBuffer W C pngBuffer ''png'' ''image/png''
                       (focus_xyxy params) (focal_point params)
                       (pdf_extra_metadata (ExtractPdfFromBase64Params.page params) pageCount
                          (PDF_DPI C)))))"

section \<open>read-visual.ts\<close>

datatype SourceType = Url | File | Base64

definition is_separator :: "char \<Rightarrow> bool" where
  "is_separator c = (c = backslash \<or> c = CHR ''/'')"

text \<open>\<open>/^[A-Za-z]:[\\\/]/\<close>\<close>

definition drive_regex :: "string \<Rightarrow> bool" where
  "drive_regex s =
     (case s of c1 # c2 # c3 # rest \<Rightarrow> is_letter c1 \<and> c2 = CHR '':'' \<and> is_separator c3 | _ \<Rightarrow> False)"

text \<open>\<open>/^\.{0,2}[\\\/]/\<close>\<close>

definition relative_regex :: "string \<Rightarrow> bool" where
  "relative_regex s =
     (case s of
        [] \<Rightarrow> False
      | c1 # r1 \<Rightarrow>
          is_separator c1 \<or>
          (c1 = CHR ''.'' \<and>
            (case r1 of
               [] \<Rightarrow> False
             | c2 # r2 \<Rightarrow>
                 is_separator c2 \<or>
                 (c2 = CHR ''.'' \<and> (case r2 of [] \<Rightarrow> False | c3 # r3 \<Rightarrow> is_separator c3)))))"

text \<open>
  \<open>/\.[a-zA-Z0-9]+$/\<close>: the string ends in a dot followed by one or more letters or
  digits. A dot is no letter or digit, so the run after it is the whole trailing run.
\<close>

definition extension_regex :: "string \<Rightarrow> bool" where
  "extension_regex s =
     (takeWhile is_alnum (rev s) \<noteq> [] \<and>
      (case dropWhile is_alnum (rev s) of [] \<Rightarrow> False | c # rest \<Rightarrow> c = CHR ''.''))"

definition isFilePath :: "string \<Rightarrow> bool" where
  "isFilePath str =
     (if drive_regex str then True
      else if startsWith str [backslash, backslash] then True
      else if startsWith str ''/'' then True
      else if relative_regex str then True
      else if extension_regex str \<and> \<not> str_includes str '' '' \<and> length str < 500 then True
      else False)"

definition isValidBase64 :: "string \<Rightarrow> bool" where
  "isValidBase64 str =
     (if length str < 100 then False
      else
        (let b64 = strip_whitespace str
         in if length b64 mod 4 \<noteq> 0 then False else base64_regex b64))"

definition detectSourceType :: "world \<Rightarrow> string \<Rightarrow> SourceType" where
  "detectSourceType W source =
     (if startsWith source ''http://'' \<or> startsWith source ''https://'' then Url
      else if startsWith source ''data:'' then Base64
      else if isFilePath source then (if fs_file W source \<noteq> None then File else File)
      else if isValidBase64 source then Base64
      else File)"

definition isPdf :: "string \<Rightarrow> bool" where
  "isPdf bytes = (length bytes \<ge> 5 \<and> take 5 bytes = ''%PDF-'')"

definition isPdfByExtension :: "world \<Rightarrow> string \<Rightarrow> bool" where
  "isPdfByExtension W filePath = (toLowerCase (path_extname W filePath) = ''.pdf'')"

definition isPdfByMimeType :: "string \<Rightarrow> bool" where
  "isPdfByMimeType mimeType = (mimeType = ''application/pdf'' \<or> str_includes mimeType ''pdf'')"

text \<open>
  \<open>/^data:([^;]+);base64,(.+)$/\<close>: the media type runs to the first semicolon, and the
  payload is the non-empty rest, which holds no line terminator.
\<close>

definition parseDataUrl :: "string \<Rightarrow> (string \<times> string) option" where
  "parseDataUrl dataUrl =
     (if startsWith dataUrl ''data:''
      then
        (let rest = drop 5 dataUrl;
             mimeType = takeWhile (\<lambda>c. c \<noteq> CHR '';'') rest;
             tail = dropWhile (\<lambda>c. c \<noteq> CHR '';'') rest;
             payload = drop 8 tail
         in if mimeType \<noteq> [] \<and> startsWith tail '';base64,'' \<and> payload \<noteq> []
               \<and> list_all (\<lambda>c. code_unit c \<noteq> 10 \<and> code_unit c \<noteq> 13) payload
            then Some (mimeType, payload)
            else None)
      else None)"

record ReadVisualParams = region_params +
  source :: string
  page :: "int option"
  dpi :: "int option"
  mime_type :: "string option"

definition renderPdfPage :: "world \<Rightarrow> string \<Rightarrow> int \<Rightarrow> int \<Rightarrow> string + (buffer \<times> int)" where
  "renderPdfPage W input pageNum dpi' =
     (let scale = of_int dpi' / 72
      in case pdf_open W input scale of
           Inl e \<Rightarrow> Inl e
         | Inr doc \<Rightarrow> render_opened doc pageNum)"

text \<open>\<open>params.page ?? 1\<close> and \<open>params.dpi ?? DEFAULT_PDF_DPI\<close>\<close>

definition requested_page :: "ReadVisualParams \<Rightarrow> int" where
  "requested_page params = (case ReadVisualParams.page params of Some p \<Rightarrow> p | None \<Rightarrow> 1)"

definition requested_dpi :: "config \<Rightarrow> ReadVisualParams \<Rightarrow> int" where
  "requested_dpi C params = (case dpi params of Some d \<Rightarrow> d | None \<Rightarrow> PDF_DPI C)"

definition processPdf :: "world \<Rightarrow> config \<Rightarrow> string \<Rightarrow> ReadVisualParams \<Rightarrow> string + McpToolResponse" where
  "processPdf W C input params =
     (let page' = requested_page params;
          dpi' = requested_dpi C params
      in case renderPdfPage W input page' dpi' of
           Inl e \<Rightarrow> Inl e
         | Inr (pngBuffer, pageCount) \<Rightarrow>
             processImageBuffer W C pngBuffer ''png'' ''image/png''
               (focus_xyxy params) (focal_point params)
               (pdf_extra_metadata page' pageCount dpi'))"

definition processImage ::
  "world \<Rightarrow> config \<Rightarrow> buffer \<Rightarrow> string \<Rightarrow> string \<Rightarrow> ReadVisualParams \<Rightarrow> string + McpToolResponse" where
  "processImage W C imageBuffer fmt mimeType params =
     processImageBuffer W C imageBuffer fmt mimeType (focus_xyxy params) (focal_point params) []"

definition handleFile :: "world \<Rightarrow> config \<Rightarrow> ReadVisualParams \<Rightarrow> string + McpToolResponse" where
  "handleFile W C params =
     (case fs_file W (source params) of
        None \<Rightarrow> Inr (error_result (''Error: File '' @ source params @ '' does not exist''))
      | Some (Inl e) \<Rightarrow> Inl e
      | Some (Inr fileBuffer) \<Rightarrow>
          if int (length fileBuffer) > MAX_IMAGE_SIZE C then Inr (size_error ''File'' C)
          else if isPdfByExtension W (source params) \<or> isPdf fileBuffer
          then processPdf W C (source params) params
          else
            (let fileExt = toLowerCase (path_extname W (source params))
             in case getMimeAndFormat fileExt of (mimeType, fmt) \<Rightarrow>
                  processImage W C (Raw fileBuffer) fmt mimeType params))"

definition handleUrl :: "world \<Rightarrow> config \<Rightarrow> ReadVisualParams \<Rightarrow> string + McpToolResponse" where
  "handleUrl W C params =
     (case validateDomain W C (source params) of
        Inl e \<Rightarrow> Inl e
      | Inr (Some domainError) \<Rightarrow> Inr (error_result domainError)
      | Inr None \<Rightarrow>
          (case http_get W (source params) of
             Inl e \<Rightarrow> Inl e
           | Inr (contentBuffer, contentType) \<Rightarrow>
               if int (length contentBuffer) > MAX_IMAGE_SIZE C then Inr (size_error ''Content'' C)
               else if isPdfByMimeType contentType \<or> endsWith (toLowerCase (source params)) ''.pdf''
                       \<or> isPdf contentBuffer
               then processPdf W C (pdf_data_url (toString_base64 contentBuffer)) params
               else
                 (case sharp_metadata W (Raw contentBuffer) of
                    Inl e \<Rightarrow> Inl e
                  | Inr md \<Rightarrow>
                      processImage W C (Raw contentBuffer)
                        (if format md = [] then ''jpeg'' else format md)
                        (if contentType = [] then ''image/jpeg'' else contentType) params)))"

definition handleBase64 :: "world \<Rightarrow> config \<Rightarrow> ReadVisualParams \<Rightarrow> string + McpToolResponse" where
  "handleBase64 W C params =
     (let hint = (case ReadVisualParams.mime_type params of
                    None \<Rightarrow> ''image/png''
                  | Some m \<Rightarrow> if m = [] then ''image/png'' else m);
          parsed = (if startsWith (source params) ''data:''
                    then parseDataUrl (source params)
                    else Some (hint, strip_whitespace (source params)))
      in case parsed of
           None \<Rightarrow> Inr (error_result ''Error: Invalid data URL format'')
         | Some (mimeType, base64Data) \<Rightarrow>
             if \<not> isValidBase64 base64Data then Inr (error_result ''Error: Invalid base64 string'')
             else
               (let contentBuffer = Buffer_from_base64 base64Data
                in if length contentBuffer = 0
                   then Inr (error_result ''Error: Invalid base64 string - decoded to empty buffer'')
                   else if int (length contentBuffer) > MAX_IMAGE_SIZE C
                   then Inr (size_error ''Content'' C)
                   else if isPdfByMimeType mimeType \<or> isPdf contentBuffer
                   then processPdf W C (pdf_data_url base64Data) params
                   else
                     (let fallback = (if split_slash_1 mimeType \<noteq> [] then split_slash_1 mimeType
                                      else ''jpeg'');
                          fmt = (case sharp_metadata W (Raw contentBuffer) of
                                   Inl e \<Rightarrow> fallback
                                 | Inr md \<Rightarrow> if format md \<noteq> [] then format md else fallback)
                      in processImage W C (Raw contentBuffer) fmt mimeType params)))"

definition readVisual :: "world \<Rightarrow> config \<Rightarrow> ReadVisualParams \<Rightarrow> McpToolResponse" where
  "readVisual W C params =
     catch_error
       (case detectSourceType W (source params) of
          File \<Rightarrow> handleFile W C params
        | Url \<Rightarrow> handleUrl W C params
        | Base64 \<Rightarrow> handleBase64 W C params)"

section \<open>Concrete worlds\<close>

text \<open>The configuration when no environment variable is set.\<close>

definition default_config :: config where
  "default_config =
     \<lparr>MAX_IMAGE_SIZE = 52428800, ALLOWED_DOMAINS = [], DEFAULT_MAX_WIDTH = 512,
      DEFAULT_MAX_HEIGHT = 512, PDF_DPI = 150\<rparr>"

text \<open>A world with no files, no network and no decodable image; encoders never fail.\<close>

definition empty_world :: world where
  "empty_world =
     \<lparr>fs_file = (\<lambda>p. None),
      path_extname = (\<lambda>p. []),
      http_get = (\<lambda>u. Inl ''Network Error''),
      url_hostname = (\<lambda>u. Inl ''Invalid URL''),
      sharp_header = (\<lambda>bytes. Inl ''Input buffer contains unsupported image format''),
      sharp_encode_error = (\<lambda>e b. None),
      sharp_output_length = (\<lambda>b. 0),
      pdf_open = (\<lambda>i s. Inl ''Invalid PDF structure''),
      toLocaleString = show_int\<rparr>"

text \<open>A world in which sharp decodes every input as a PNG of the given size.\<close>

definition solid_world :: "int \<Rightarrow> int \<Rightarrow> world" where
  "solid_world w h = empty_world\<lparr>sharp_header := (\<lambda>bytes. Inr \<lparr>width = w, height = h, format = ''png''\<rparr>)\<rparr>"

text \<open>The same world with encoders that always throw.\<close>

definition failing_encoder_world :: "int \<Rightarrow> int \<Rightarrow> world" where
  "failing_encoder_world w h = (solid_world w h)\<lparr>sharp_encode_error := (\<lambda>e b. Some ''vips: out of memory'')\<rparr>"

text \<open>
  A world with one three-page PDF file. Every page renders to an A4 page at 150 dpi; in
  \<open>damaged_report_world\<close> the renderer throws on page 2.
\<close>

definition report_document :: pdf_document where
  "report_document = \<lparr>doc_length = Some 3, doc_getPage = (\<lambda>n. Inr ''rendered page'')\<rparr>"

definition report_world :: world where
  "report_world =
     (solid_world 1240 1754)
       \<lparr>fs_file := (\<lambda>p. if p = ''/docs/report.pdf'' then Some (Inr ''%PDF-1.7'') else None),
        path_extname := (\<lambda>p. if p = ''/docs/report.pdf'' then ''.pdf'' else []),
        pdf_open := (\<lambda>i s. if i = ''/docs/report.pdf'' then Inr report_document
                             else Inl ''Invalid PDF structure'')\<rparr>"

definition damaged_report_document :: pdf_document where
  "damaged_report_document =
     \<lparr>doc_length = Some 3,
      doc_getPage = (\<lambda>n. if n = 2 then Inl ''Invalid page content'' else Inr ''rendered page'')\<rparr>"

definition damaged_report_world :: world where
  "damaged_report_world =
     report_world
       \<lparr>pdf_open := (\<lambda>i s. if i = ''/docs/report.pdf'' then Inr damaged_report_document
                             else Inl ''Invalid PDF structure'')\<rparr>"

text \<open>
  A valid one-pixel PNG in base64, the same text without its padding, the same text with
  an exclamation mark in it, and a world in which sharp decodes exactly the bytes of that
  PNG.
\<close>

definition pixel_png_base64 :: string where
  "pixel_png_base64 =
     ''iVBORw0KGgoAAAANSUhEUgAAAAEAAAABCAAAAAA6fptVAAAACklEQVR42mNgAAAAAgAB5Sfe/AAAAABJRU5ErkJggg==''"

definition pixel_png_unpadded :: string where
  "pixel_png_unpadded =
     ''iVBORw0KGgoAAAANSUhEUgAAAAEAAAABCAAAAAA6fptVAAAACklEQVR42mNgAAAAAgAB5Sfe/AAAAABJRU5ErkJggg''"

definition pixel_png_illegal_char :: string where
  "pixel_png_illegal_char =
     ''iVBO!Rw0KGgoAAAANSUhEUgAAAAEAAAABCAAAAAA6fptVAAAACklEQVR42mNgAAAAAgAB5Sfe/AAAAABJRU5ErkJggg==''"

definition pixel_world :: world where
  "pixel_world =
     empty_world
       \<lparr>sharp_header := (\<lambda>bytes. if bytes = Buffer_from_base64 pixel_png_base64
                                 then Inr \<lparr>width = 1, height = 1, format = ''png''\<rparr>
                                 else Inl ''Input buffer contains unsupported image format'')\<rparr>"

section \<open>Region of interest\<close>


lemma Math_round_of_int: "Math_round (of_int n) = n"
  by (simp add: Math_round_def) linarith

lemma Math_round_le: "x \<le> of_int n \<Longrightarrow> Math_round x \<le> n"
  by (simp add: Math_round_def floor_le_iff)

lemma floor_rat_numeral [simp]:
  "\<lfloor>numeral a / numeral b :: rat\<rfloor> = numeral a div numeral b"
  "\<lfloor>- (numeral a / numeral b) :: rat\<rfloor> = - numeral a div numeral b"
proof -
  show "\<lfloor>numeral a / numeral b :: rat\<rfloor> = numeral a div numeral b"
    by (metis floor_divide_of_int_eq of_int_numeral)
  show "\<lfloor>- (numeral a / numeral b) :: rat\<rfloor> = - numeral a div numeral b"
    by (metis divide_minus_left floor_divide_of_int_eq of_int_neg_numeral of_int_numeral)
qed

lemma Math_round_ge: "of_int n \<le> x \<Longrightarrow> n \<le> Math_round x"
  by (simp add: Math_round_def le_floor_iff)



lemma clamp_rect_bounds:
  "clamp_rect md r = (l, t, w, h) \<Longrightarrow> 0 \<le> l \<and> 0 \<le> t \<and> l + w \<le> width md \<and> t + h \<le> height md"
  by (cases r) (auto simp: clamp_rect_def Let_def split: if_splits)

lemma applyImageFocus_None:
  "focus_rect md fx fp = None \<Longrightarrow> applyImageFocus W b md fx fp = Inr None"
  by (simp add: applyImageFocus_def)

lemma applyImageFocus_Some:
  assumes "sharp_metadata W b = Inr md" "focus_rect md fx fp = Some r" "clamp_rect md r = (l, t, w, h)"
  shows "applyImageFocus W b md fx fp =
         (if width md = 0 \<or> height md = 0 \<or> w \<le> 0 \<or> h \<le> 0 then Inr None
          else Inr (Some (Extracted b (l, t, w, h))))"
proof -
  from clamp_rect_bounds[OF assms(3)]
  have bnd: "0 \<le> l" "0 \<le> t" "l + w \<le> width md" "t + h \<le> height md" by auto
  have "has_length_4 fx \<or> has_length_4 fp"
    using assms(2) by (auto simp: focus_rect_def split: if_splits)
  then show ?thesis
    using assms bnd by (auto simp: applyImageFocus_def sharp_extract_def)
qed

lemma applyImageFocus_result:
  assumes "sharp_metadata W b = Inr md"
  shows "applyImageFocus W b md fx fp = Inr None
          \<or> (\<exists>l t w h. applyImageFocus W b md fx fp = Inr (Some (Extracted b (l, t, w, h)))
               \<and> sharp_extract W b (l, t, w, h) = Inr (Extracted b (l, t, w, h))
               \<and> 0 \<le> l \<and> 0 \<le> t \<and> 0 < w \<and> 0 < h \<and> l + w \<le> width md \<and> t + h \<le> height md)"
proof (cases "focus_rect md fx fp")
  case None
  then show ?thesis by (simp add: applyImageFocus_None)
next
  case (Some r)
  obtain l t w h where c: "clamp_rect md r = (l, t, w, h)" by (cases "clamp_rect md r") auto
  note bnd = clamp_rect_bounds[OF c]
  show ?thesis
  proof (cases "width md = 0 \<or> height md = 0 \<or> w \<le> 0 \<or> h \<le> 0")
    case True
    then show ?thesis using applyImageFocus_Some[OF assms Some c] by simp
  next
    case False
    then have a: "applyImageFocus W b md fx fp = Inr (Some (Extracted b (l, t, w, h)))"
      using applyImageFocus_Some[OF assms Some c] by simp
    have e: "sharp_extract W b (l, t, w, h) = Inr (Extracted b (l, t, w, h))"
      using assms bnd False by (simp add: sharp_extract_def)
    from a e bnd False show ?thesis by auto
  qed
qed



text \<open>
  C8. When \<open>focus_xyxy\<close> has four elements the crop is computed from it alone, whatever
  \<open>focal_point\<close> is; \<open>focal_point\<close> decides the crop only when it has four elements
  and \<open>focus_xyxy\<close> is absent or of another length.
\<close>

theorem C8_focus_xyxy_precedence:
  "(has_length_4 fx \<longrightarrow>
      focus_rect md fx fp = map_option (focus_xyxy_rect md) fx
    \<and> applyImageFocus W b md fx fp = applyImageFocus W b md fx fp')
 \<and> (\<not> has_length_4 fx \<longrightarrow> has_length_4 fp \<longrightarrow>
      focus_rect md fx fp = map_option (focal_point_rect md) fp
    \<and> applyImageFocus W b md fx fp = applyImageFocus W b md None fp)"
  by (simp add: applyImageFocus_def focus_rect_def has_length_4_def)

theorem C8_focus_xyxy_precedence_witness:
  "has_length_4 (Some [10, 10, 60, 60]) \<and> \<not> has_length_4 (Some [1, 2]) \<and> has_length_4 (Some [50, 50, 20, 20])
   \<and> focus_rect \<lparr>width = 100, height = 100, format = ''png''\<rparr> (Some [10, 10, 60, 60]) (Some [50, 50, 20, 20])
       = Some (10, 10, 50, 50)
   \<and> focus_rect \<lparr>width = 100, height = 100, format = ''png''\<rparr> (Some [1, 2]) (Some [50, 50, 20, 20])
       = Some (30, 30, 40, 40)"
  using C8_focus_xyxy_precedence
          [of "Some [10, 10, 60, 60]" "\<lparr>width = 100, height = 100, format = ''png''\<rparr>" "Some [50, 50, 20, 20]"
              empty_world "Raw []" None]
        C8_focus_xyxy_precedence
          [of "Some [1, 2]" "\<lparr>width = 100, height = 100, format = ''png''\<rparr>" "Some [50, 50, 20, 20]"
              empty_world "Raw []" None]
  by (simp add: has_length_4_def isRatio_def Math_round_def)

section \<open>Bounded resize\<close>

lemma inside_size_axis:
  fixes s :: rat
  assumes "1 \<le> s" "0 < w"
  shows "Math_round (of_int w / min s (of_int w)) = max 1 (Math_round (of_int w / s))"
proof (cases "s \<le> of_int w")
  case True
  then have "1 \<le> of_int w / s" using assms by (simp add: pos_le_divide_eq)
  then have "1 \<le> Math_round (of_int w / s)" using Math_round_ge[of 1] by simp
  with True show ?thesis by (simp add: min_def)
next
  case False
  then have lt: "of_int w < s" by simp
  have "of_int w / s < 1" using lt assms by (simp add: pos_divide_less_eq)
  then have "Math_round (of_int w / s) \<le> 1" using Math_round_le[of _ 1] by simp
  moreover have "Math_round (of_int w / of_int w :: rat) = 1"
    using assms Math_round_of_int[of 1] by simp
  ultimately show ?thesis using lt by (simp add: min_def)
qed

lemma inside_size_eq:
  assumes "0 < w" "0 < h"
  shows "inside_size w h tw th =
         (max 1 (Math_round (of_int w / shrink_of w h tw th)), max 1 (Math_round (of_int h / shrink_of w h tw th)))"
proof -
  have s: "1 \<le> shrink_of w h tw th" by (simp add: shrink_of_def)
  show ?thesis
    unfolding inside_size_def Let_def
    using inside_size_axis[OF s assms(1)] inside_size_axis[OF s assms(2)]
    by (simp add: shrink_of_def)
qed

lemma shrunk_le_target:
  fixes s :: rat
  assumes "0 < tw" "of_int w / of_int tw \<le> s" "1 \<le> s"
  shows "max 1 (Math_round (of_int w / s)) \<le> tw"
proof -
  have "of_int w \<le> s * of_int tw" using assms by (simp add: pos_divide_le_eq)
  then have "of_int w / s \<le> of_int tw" using assms by (simp add: pos_divide_le_eq mult.commute)
  then have "Math_round (of_int w / s) \<le> tw" by (rule Math_round_le)
  with assms show ?thesis by simp
qed

lemma shrunk_le_input:
  fixes s :: rat
  assumes "0 < w" "1 \<le> s"
  shows "max 1 (Math_round (of_int w / s)) \<le> w"
proof -
  have "of_int w / s \<le> of_int w" using assms by (simp add: pos_divide_le_eq mult_le_cancel_left1)
  then have "Math_round (of_int w / s) \<le> w" by (rule Math_round_le)
  with assms show ?thesis by simp
qed

lemma inside_size_bounds:
  assumes "0 < w" "0 < h" "0 < tw" "0 < th"
  shows "fst (inside_size w h tw th) \<le> tw" "snd (inside_size w h tw th) \<le> th"
        "fst (inside_size w h tw th) \<le> w" "snd (inside_size w h tw th) \<le> h"
        "1 \<le> fst (inside_size w h tw th)" "1 \<le> snd (inside_size w h tw th)"
proof -
  let ?s = "shrink_of w h tw th"
  have s: "1 \<le> ?s" "of_int w / of_int tw \<le> ?s" "of_int h / of_int th \<le> ?s"
    by (simp_all add: shrink_of_def)
  show "fst (inside_size w h tw th) \<le> tw"
    using shrunk_le_target[OF assms(3) s(2) s(1)] by (simp add: inside_size_eq assms)
  show "snd (inside_size w h tw th) \<le> th"
    using shrunk_le_target[OF assms(4) s(3) s(1)] by (simp add: inside_size_eq assms)
  show "fst (inside_size w h tw th) \<le> w"
    using shrunk_le_input[OF assms(1) s(1)] by (simp add: inside_size_eq assms)
  show "snd (inside_size w h tw th) \<le> h"
    using shrunk_le_input[OF assms(2) s(1)] by (simp add: inside_size_eq assms)
  show "1 \<le> fst (inside_size w h tw th)" by (simp add: inside_size_eq assms)
  show "1 \<le> snd (inside_size w h tw th)" by (simp add: inside_size_eq assms)
qed


lemma resize_step_noop:
  assumes "width md \<le> DEFAULT_MAX_WIDTH C" "height md \<le> DEFAULT_MAX_HEIGHT C"
  shows "resize_step W C b md = Inr (b, md)"
  using assms by (simp add: resize_step_def Let_def)

lemma resize_step_resized:
  assumes "sharp_metadata W b = Inr md" "0 < width md" "0 < height md"
    "\<not> (width md \<le> DEFAULT_MAX_WIDTH C \<and> height md \<le> DEFAULT_MAX_HEIGHT C)"
    "0 < DEFAULT_MAX_WIDTH C" "0 < DEFAULT_MAX_HEIGHT C"
  shows "resize_step W C b md =
         Inr (Resized b (min (width md) (DEFAULT_MAX_WIDTH C)) (min (height md) (DEFAULT_MAX_HEIGHT C)),
              md\<lparr>width := fst (inside_size (width md) (height md)
                                (min (width md) (DEFAULT_MAX_WIDTH C)) (min (height md) (DEFAULT_MAX_HEIGHT C))),
                 height := snd (inside_size (width md) (height md)
                                (min (width md) (DEFAULT_MAX_WIDTH C)) (min (height md) (DEFAULT_MAX_HEIGHT C)))\<rparr>)"
proof -
  have "width md > min (width md) (DEFAULT_MAX_WIDTH C) \<or> height md > min (height md) (DEFAULT_MAX_HEIGHT C)"
    using assms(4) by auto
  moreover have "\<not> min (width md) (DEFAULT_MAX_WIDTH C) \<le> 0" "\<not> min (height md) (DEFAULT_MAX_HEIGHT C) \<le> 0"
    using assms by auto
  ultimately show ?thesis
    using assms(1,2,3) unfolding resize_step_def Let_def sharp_resize_inside_def
    by simp
qed

lemma resize_step_rejected:
  assumes "sharp_metadata W b = Inr md" "0 < width md" "0 < height md"
    "\<not> (0 < DEFAULT_MAX_WIDTH C \<and> 0 < DEFAULT_MAX_HEIGHT C)"
  shows "\<exists>e. resize_step W C b md = Inl e"
proof -
  have "width md > min (width md) (DEFAULT_MAX_WIDTH C) \<or> height md > min (height md) (DEFAULT_MAX_HEIGHT C)"
    using assms by auto
  moreover have "min (width md) (DEFAULT_MAX_WIDTH C) \<le> 0 \<or> min (height md) (DEFAULT_MAX_HEIGHT C) \<le> 0"
    using assms by auto
  ultimately show ?thesis
    using assms(1,2,3) unfolding resize_step_def Let_def sharp_resize_inside_def
    by auto
qed




lemma sizes_same:
  assumes "0 < width md" "0 < height md" "width md \<le> DEFAULT_MAX_WIDTH C" "height md \<le> DEFAULT_MAX_HEIGHT C"
  shows "width md \<le> width md \<and> height md \<le> height md
          \<and> width md \<le> min (width md) (DEFAULT_MAX_WIDTH C)
          \<and> height md \<le> min (height md) (DEFAULT_MAX_HEIGHT C)
          \<and> (\<exists>s\<ge>1. width md = max 1 (Math_round (of_int (width md) / s))
                   \<and> height md = max 1 (Math_round (of_int (height md) / s)))"
proof -
  have "width md = max 1 (Math_round (of_int (width md) / 1))"
       "height md = max 1 (Math_round (of_int (height md) / 1))"
    using assms by (simp_all add: Math_round_of_int)
  then have asp: "\<exists>s\<ge>1::rat. width md = max 1 (Math_round (of_int (width md) / s))
                 \<and> height md = max 1 (Math_round (of_int (height md) / s))"
    by (intro exI[of _ 1] conjI) simp_all
  show ?thesis using assms asp by (intro conjI) simp_all
qed

lemma sizes_resized:
  assumes "0 < width md" "0 < height md" "0 < tw" "0 < th"
    and md': "md' = md\<lparr>width := fst (inside_size (width md) (height md) tw th),
                       height := snd (inside_size (width md) (height md) tw th)\<rparr>"
  shows "width md' \<le> width md \<and> height md' \<le> height md
          \<and> width md' \<le> tw \<and> height md' \<le> th
          \<and> (\<exists>s\<ge>1. width md' = max 1 (Math_round (of_int (width md) / s))
                   \<and> height md' = max 1 (Math_round (of_int (height md) / s)))"
proof -
  note bnd = inside_size_bounds[OF assms(1-4)]
  have w: "width md' = fst (inside_size (width md) (height md) tw th)"
    and h: "height md' = snd (inside_size (width md) (height md) tw th)"
    by (simp_all add: md')
  have s1: "1 \<le> shrink_of (width md) (height md) tw th" by (simp add: shrink_of_def)
  have "width md' = max 1 (Math_round (of_int (width md) / shrink_of (width md) (height md) tw th))"
       "height md' = max 1 (Math_round (of_int (height md) / shrink_of (width md) (height md) tw th))"
    unfolding w h inside_size_eq[OF assms(1) assms(2)] by simp_all
  with s1 have asp: "\<exists>s\<ge>1. width md' = max 1 (Math_round (of_int (width md) / s))
                   \<and> height md' = max 1 (Math_round (of_int (height md) / s))"
    by blast
  show ?thesis unfolding w h using bnd asp[unfolded w h] by (intro conjI)
qed

text \<open>
  C4. For a decoded image of positive size entering the resize step: whenever the step
  returns, neither output dimension exceeds the input's, the output fits in the box
  min(width, DEFAULT_MAX_WIDTH) by min(height, DEFAULT_MAX_HEIGHT), and both dimensions
  are the input's divided by one common factor of at least 1 and rounded to whole pixels
  (never below one pixel), which is what preserving the aspect ratio means on a pixel
  grid. An image already within the configured maximum comes back as the same buffer with
  the same metadata. With a positive configured maximum the step always returns.
\<close>

theorem C4_resize_never_enlarges:
  assumes "sharp_metadata W b = Inr md" "0 < width md" "0 < height md"
  shows "(\<forall>b' md'. resize_step W C b md = Inr (b', md') \<longrightarrow>
            width md' \<le> width md \<and> height md' \<le> height md
          \<and> width md' \<le> min (width md) (DEFAULT_MAX_WIDTH C)
          \<and> height md' \<le> min (height md) (DEFAULT_MAX_HEIGHT C)
          \<and> (\<exists>s\<ge>1. width md' = max 1 (Math_round (of_int (width md) / s))
                   \<and> height md' = max 1 (Math_round (of_int (height md) / s))))
       \<and> (width md \<le> DEFAULT_MAX_WIDTH C \<and> height md \<le> DEFAULT_MAX_HEIGHT C \<longrightarrow>
            resize_step W C b md = Inr (b, md))
       \<and> (0 < DEFAULT_MAX_WIDTH C \<and> 0 < DEFAULT_MAX_HEIGHT C \<longrightarrow>
            (\<exists>b' md'. resize_step W C b md = Inr (b', md')))"
    (is "?sizes \<and> ?noop \<and> ?total")
proof (intro conjI)
  let ?tw = "min (width md) (DEFAULT_MAX_WIDTH C)"
  let ?th = "min (height md) (DEFAULT_MAX_HEIGHT C)"
  show ?noop by (simp add: resize_step_noop)
  show ?total
  proof (intro impI)
    assume pos: "0 < DEFAULT_MAX_WIDTH C \<and> 0 < DEFAULT_MAX_HEIGHT C"
    show "\<exists>b' md'. resize_step W C b md = Inr (b', md')"
    proof (cases "width md \<le> DEFAULT_MAX_WIDTH C \<and> height md \<le> DEFAULT_MAX_HEIGHT C")
      case True
      then have "resize_step W C b md = Inr (b, md)" by (simp add: resize_step_noop)
      then show ?thesis by blast
    next
      case False
      from resize_step_resized[OF assms False] pos show ?thesis by blast
    qed
  qed
  show ?sizes
  proof (intro allI impI)
    fix b' md'
    assume ok: "resize_step W C b md = Inr (b', md')"
    show "width md' \<le> width md \<and> height md' \<le> height md
          \<and> width md' \<le> ?tw \<and> height md' \<le> ?th
          \<and> (\<exists>s\<ge>1. width md' = max 1 (Math_round (of_int (width md) / s))
                   \<and> height md' = max 1 (Math_round (of_int (height md) / s)))"
    proof (cases "width md \<le> DEFAULT_MAX_WIDTH C \<and> height md \<le> DEFAULT_MAX_HEIGHT C")
      case True
      then have "resize_step W C b md = Inr (b, md)" by (simp add: resize_step_noop)
      with ok have "md' = md" by simp
      then show ?thesis using sizes_same[OF assms(2,3)] True by blast
    next
      case False
      have pos: "0 < DEFAULT_MAX_WIDTH C \<and> 0 < DEFAULT_MAX_HEIGHT C"
      proof (rule ccontr)
        assume "\<not> ?thesis"
        from resize_step_rejected[OF assms this] ok show False by auto
      qed
      then have pw: "0 < ?tw" and ph: "0 < ?th" using assms by auto
      from resize_step_resized[OF assms False] pos ok
      have "md' = md\<lparr>width := fst (inside_size (width md) (height md) ?tw ?th),
                       height := snd (inside_size (width md) (height md) ?tw ?th)\<rparr>"
        by simp
      from sizes_resized[OF assms(2,3) pw ph this] show ?thesis .
    qed
  qed
qed




theorem C4_resize_never_enlarges_witness:
  "sharp_metadata (solid_world 1000 501) (Raw ''image'') = Inr \<lparr>width = 1000, height = 501, format = ''png''\<rparr>
   \<and> resize_step (solid_world 1000 501) default_config (Raw ''image'')
         \<lparr>width = 1000, height = 501, format = ''png''\<rparr>
       = Inr (Resized (Raw ''image'') 512 501, \<lparr>width = 512, height = 257, format = ''png''\<rparr>)
   \<and> (512::int) \<le> 1000 \<and> (257::int) \<le> 501 \<and> (257::int) \<le> min 501 512"
proof -
  let ?W = "solid_world 1000 501" and ?md = "\<lparr>width = 1000, height = 501, format = ''png''\<rparr>"
  have md: "sharp_metadata ?W (Raw ''image'') = Inr ?md"
    by (simp add: solid_world_def empty_world_def)
  have w: "0 < width ?md" and h: "0 < height ?md" by simp_all
  have i: "inside_size 1000 501 512 501 = (512, 257)"
    by (simp add: inside_size_def shrink_of_def Math_round_def Let_def)
  have step: "resize_step ?W default_config (Raw ''image'') ?md
              = Inr (Resized (Raw ''image'') 512 501, \<lparr>width = 512, height = 257, format = ''png''\<rparr>)"
    by (simp add: resize_step_def Let_def default_config_def sharp_resize_inside_def solid_world_def
          empty_world_def i)
  from C4_resize_never_enlarges[OF md w h, of default_config] step
  have "width \<lparr>width = 512, height = 257, format = ''png''\<rparr> \<le> width ?md
        \<and> height \<lparr>width = 512, height = 257, format = ''png''\<rparr> \<le> height ?md
        \<and> height \<lparr>width = 512, height = 257, format = ''png''\<rparr>
            \<le> min (height ?md) (DEFAULT_MAX_HEIGHT default_config)"
    by blast
  with md step show ?thesis by (simp add: default_config_def)
qed

section \<open>The pipeline\<close>

lemma obj_delete_set: "obj_delete (obj_set obj k v) k = obj_delete obj k"
  by (induction obj) auto

lemma obj_get_set: "obj_get (obj_set obj k v) k' = (if k' = k then Some v else obj_get obj k')"
  by (induction obj) auto

lemma focus_step_ignored:
  assumes "\<not> has_length_4 fx" "\<not> has_length_4 fp"
  shows "applyImageFocus W b md fx fp = Inr None" "focus_step W b md fx fp = Inr (b, md)"
  using assms by (simp_all add: applyImageFocus_def focus_step_def)

text \<open>
  C9. When neither \<open>focus_xyxy\<close> nor \<open>focal_point\<close> is an array of four elements
  (each is absent or has another length), \<open>applyImageFocus\<close> returns null without an
  exception, the pipeline goes on with the original buffer, and the call fails exactly
  when the same call without region parameters fails; when it succeeds it carries the same
  image and the same metadata as that call, apart from the advisory \<open>info\<close> text, which
  is only written when both parameters are absent.
\<close>

theorem C9_wrong_length_region_ignored:
  assumes "\<not> has_length_4 fx" "\<not> has_length_4 fp"
  shows "applyImageFocus W b md fx fp = Inr None
       \<and> focus_step W b md fx fp = Inr (b, md)
       \<and> (\<forall>e. processImageBuffer W C b fmt mimeType fx fp extra = Inl e
              \<longleftrightarrow> processImageBuffer W C b fmt mimeType None None extra = Inl e)
       \<and> (\<forall>res. processImageBuffer W C b fmt mimeType fx fp extra = Inr res \<longrightarrow>
            (\<exists>obj obj' final.
                res = \<lparr>content = [MetadataPart obj, ImagePart final mimeType], isError = False\<rparr>
              \<and> processImageBuffer W C b fmt mimeType None None extra
                  = Inr \<lparr>content = [MetadataPart obj', ImagePart final mimeType], isError = False\<rparr>
              \<and> obj_delete obj ''info'' = obj_delete obj' ''info''))"
proof -
  have n: "\<not> has_length_4 None" by (simp add: has_length_4_def)
  have f: "\<And>md. focus_step W b md fx fp = Inr (b, md)" "\<And>md. focus_step W b md None None = Inr (b, md)"
    using assms n by (simp_all add: focus_step_ignored)
  show ?thesis
    using focus_step_ignored[OF assms, of W b md]
    by (auto simp: processImageBuffer_def f Let_def obj_delete_set split: sum.splits prod.splits)
qed

theorem C9_wrong_length_region_ignored_witness:
  "\<not> has_length_4 (Some [10, 10, 60]) \<and> \<not> has_length_4 None
   \<and> applyImageFocus (solid_world 100 100) (Raw ''image'') \<lparr>width = 100, height = 100, format = ''png''\<rparr>
        (Some [10, 10, 60]) None = Inr None
   \<and> focus_step (solid_world 100 100) (Raw ''image'') \<lparr>width = 100, height = 100, format = ''png''\<rparr>
        (Some [10, 10, 60]) None = Inr (Raw ''image'', \<lparr>width = 100, height = 100, format = ''png''\<rparr>)"
proof -
  have a: "\<not> has_length_4 (Some [10, 10, 60])" and b: "\<not> has_length_4 None"
    by (simp_all add: has_length_4_def)
  from C9_wrong_length_region_ignored
         [OF a b, of "solid_world 100 100" "Raw ''image''" "\<lparr>width = 100, height = 100, format = ''png''\<rparr>"]
       a b
  show ?thesis by blast
qed

text \<open>
  C7. When an image has reached the compression step and the encoder throws, the
  exception is swallowed: the pipeline returns a successful result, a metadata text part
  followed by an image part with no error flag, and the image part carries the buffer as
  it was before compression. The entry point's \<open>catch\<close> leaves that result as it is.
\<close>

theorem C7_compression_failure_recovered:
  assumes "sharp_metadata W b = Inr md0"
      "focus_step W b md0 fx fp = Inr (b1, md1)"
      "resize_step W C b1 md1 = Inr (b2, md2)"
      "compressImage W b2 fmt = Inl err"
  shows "compress_step W b2 fmt = b2
       \<and> (\<exists>obj. processImageBuffer W C b fmt mimeType fx fp extra
                  = Inr \<lparr>content = [MetadataPart obj, ImagePart b2 mimeType], isError = False\<rparr>
              \<and> catch_error (processImageBuffer W C b fmt mimeType fx fp extra)
                  = \<lparr>content = [MetadataPart obj, ImagePart b2 mimeType], isError = False\<rparr>)"
proof -
  have c: "compress_step W b2 fmt = b2" using assms(4) by (simp add: compress_step_def)
  show ?thesis
    using assms(1-3) c by (simp add: processImageBuffer_def Let_def catch_error_def)
qed

theorem C7_compression_failure_recovered_witness:
  "compressImage (failing_encoder_world 100 100) (Raw ''image'') ''png'' = Inl ''vips: out of memory''
   \<and> catch_error (processImageBuffer (failing_encoder_world 100 100) default_config (Raw ''image'')
                    ''png'' ''image/png'' None None [])
     = \<lparr>content = [MetadataPart [(''width'', JNum 100), (''height'', JNum 100), (''format'', JStr ''png''),
                                  (''size'', JNum 5)],
                    ImagePart (Raw ''image'') ''image/png''],
        isError = False\<rparr>"
proof -
  let ?W = "failing_encoder_world 100 100" and ?md = "\<lparr>width = 100, height = 100, format = ''png''\<rparr>"
  have md: "sharp_metadata ?W (Raw ''image'') = Inr ?md"
    by (simp add: failing_encoder_world_def solid_world_def empty_world_def)
  have f: "focus_step ?W (Raw ''image'') ?md None None = Inr (Raw ''image'', ?md)"
    by (simp add: focus_step_def applyImageFocus_def has_length_4_def)
  have r: "resize_step ?W default_config (Raw ''image'') ?md = Inr (Raw ''image'', ?md)"
    by (simp add: resize_step_def default_config_def)
  have l: "toLowerCase ''png'' = ''png''"
    by (simp add: toLowerCase_def lower_char_def code_unit_def)
  have c: "compressImage ?W (Raw ''image'') ''png'' = Inl ''vips: out of memory''"
    unfolding compressImage_def l
    by (simp add: sharp_toBuffer_def failing_encoder_world_def solid_world_def empty_world_def)
  from C7_compression_failure_recovered[OF md f r c, of "''image/png''" "[]"]
  obtain obj where o:
    "processImageBuffer ?W default_config (Raw ''image'') ''png'' ''image/png'' None None []
       = Inr \<lparr>content = [MetadataPart obj, ImagePart (Raw ''image'') ''image/png''], isError = False\<rparr>"
    "catch_error (processImageBuffer ?W default_config (Raw ''image'') ''png'' ''image/png'' None None [])
       = \<lparr>content = [MetadataPart obj, ImagePart (Raw ''image'') ''image/png''], isError = False\<rparr>"
    by blast
  have "processImageBuffer ?W default_config (Raw ''image'') ''png'' ''image/png'' None None []
        = Inr \<lparr>content = [MetadataPart [(''width'', JNum 100), (''height'', JNum 100),
                                         (''format'', JStr ''png''), (''size'', JNum 5)],
                           ImagePart (Raw ''image'') ''image/png''], isError = False\<rparr>"
    using md f r c
    by (simp add: processImageBuffer_def Let_def compress_step_def obj_spread_def buffer_length_def)
  with o have "obj = [(''width'', JNum 100), (''height'', JNum 100), (''format'', JStr ''png''), (''size'', JNum 5)]"
    by simp
  with o(2) c show ?thesis by simp
qed

lemma legacy_fields_untouched:
  "focus_xyxy (p\<lparr>resize := r, max_width := mw, max_height := mh\<rparr>) = focus_xyxy p"
  "focal_point (p\<lparr>resize := r, max_width := mw, max_height := mh\<rparr>) = focal_point p"
  "ExtractImageFromFileParams.file_path (p1\<lparr>resize := r, max_width := mw, max_height := mh\<rparr>) = ExtractImageFromFileParams.file_path p1"
  "ExtractImageFromUrlParams.url (p2\<lparr>resize := r, max_width := mw, max_height := mh\<rparr>) = ExtractImageFromUrlParams.url p2"
  "ExtractImageFromBase64Params.base64 (p3\<lparr>resize := r, max_width := mw, max_height := mh\<rparr>) = ExtractImageFromBase64Params.base64 p3"
  "ExtractImageFromBase64Params.mime_type (p3\<lparr>resize := r, max_width := mw, max_height := mh\<rparr>) = ExtractImageFromBase64Params.mime_type p3"
  "ExtractPdfFromFileParams.file_path (p4\<lparr>resize := r, max_width := mw, max_height := mh\<rparr>) = ExtractPdfFromFileParams.file_path p4"
  "ExtractPdfFromFileParams.page (p4\<lparr>resize := r, max_width := mw, max_height := mh\<rparr>) = ExtractPdfFromFileParams.page p4"
  "ExtractPdfFromUrlParams.url (p5\<lparr>resize := r, max_width := mw, max_height := mh\<rparr>) = ExtractPdfFromUrlParams.url p5"
  "ExtractPdfFromUrlParams.page (p5\<lparr>resize := r, max_width := mw, max_height := mh\<rparr>) = ExtractPdfFromUrlParams.page p5"
  "ExtractPdfFromBase64Params.base64 (p6\<lparr>resize := r, max_width := mw, max_height := mh\<rparr>) = ExtractPdfFromBase64Params.base64 p6"
  "ExtractPdfFromBase64Params.page (p6\<lparr>resize := r, max_width := mw, max_height := mh\<rparr>) = ExtractPdfFromBase64Params.page p6"
  by simp_all

text \<open>
  C10. The parameters \<open>resize\<close>, \<open>max_width\<close> and \<open>max_height\<close> of the three
  \<open>extract_image\<close> and the three \<open>extract_pdf\<close> entry points have no effect: two calls
  that differ only in these fields return the same result, in every world and under every
  configuration. (The bound on the output is the configured one, see C4.)
\<close>

theorem C10_legacy_parameters_ignored:
  "extractImageFromFile W C (img_file\<lparr>resize := r, max_width := mw, max_height := mh\<rparr>) = extractImageFromFile W C img_file
 \<and> extractImageFromUrl W C (img_url\<lparr>resize := r, max_width := mw, max_height := mh\<rparr>) = extractImageFromUrl W C img_url
 \<and> extractImageFromBase64 W C (img_inline\<lparr>resize := r, max_width := mw, max_height := mh\<rparr>) = extractImageFromBase64 W C img_inline
 \<and> extractPdfFromFile W C (pdf_file\<lparr>resize := r, max_width := mw, max_height := mh\<rparr>) = extractPdfFromFile W C pdf_file
 \<and> extractPdfFromUrl W C (pdf_url\<lparr>resize := r, max_width := mw, max_height := mh\<rparr>) = extractPdfFromUrl W C pdf_url
 \<and> extractPdfFromBase64 W C (pdf_inline\<lparr>resize := r, max_width := mw, max_height := mh\<rparr>) = extractPdfFromBase64 W C pdf_inline"
  unfolding extractImageFromFile_def extractImageFromUrl_def extractImageFromBase64_def
    extractPdfFromFile_def extractPdfFromUrl_def extractPdfFromBase64_def legacy_fields_untouched
  by (intro conjI refl)

theorem C10_legacy_parameters_ignored_witness:
  "extractImageFromBase64 pixel_world default_config
        \<lparr>focus_xyxy = None, focal_point = None, resize = False, max_width = 64, max_height = 32,
         ExtractImageFromBase64Params.base64 = pixel_png_base64,
         ExtractImageFromBase64Params.mime_type = ''image/png''\<rparr>
   = extractImageFromBase64 pixel_world default_config
        \<lparr>focus_xyxy = None, focal_point = None, resize = True, max_width = 512, max_height = 512,
         ExtractImageFromBase64Params.base64 = pixel_png_base64,
         ExtractImageFromBase64Params.mime_type = ''image/png''\<rparr>"
  using C10_legacy_parameters_ignored
          [where W = pixel_world and C = default_config and r = False and mw = 64 and mh = 32
             and img_inline = "\<lparr>focus_xyxy = None, focal_point = None, resize = True, max_width = 512,
                             max_height = 512,
                             ExtractImageFromBase64Params.base64 = pixel_png_base64,
                             ExtractImageFromBase64Params.mime_type = ''image/png''\<rparr>"]
  by simp

lemma focus_step_total:
  assumes "sharp_metadata W b = Inr md" "0 \<le> width md" "0 \<le> height md"
  shows "\<exists>b1 md1. focus_step W b md fx fp = Inr (b1, md1) \<and> sharp_metadata W b1 = Inr md1
           \<and> 0 \<le> width md1 \<and> 0 \<le> height md1"
proof -
  from applyImageFocus_result[OF assms(1), of fx fp]
  consider "applyImageFocus W b md fx fp = Inr None"
    | l t w h where "applyImageFocus W b md fx fp = Inr (Some (Extracted b (l, t, w, h)))" "0 < w" "0 < h"
    by blast
  then show ?thesis
  proof cases
    case 1
    then show ?thesis using assms by (simp add: focus_step_def)
  next
    case 2
    then show ?thesis using assms by (simp add: focus_step_def)
  qed
qed

lemma resize_step_total:
  assumes "sharp_metadata W b = Inr md" "0 \<le> width md" "0 \<le> height md"
    "0 < DEFAULT_MAX_WIDTH C" "0 < DEFAULT_MAX_HEIGHT C"
  shows "\<exists>b2 md2. resize_step W C b md = Inr (b2, md2)"
proof (cases "0 < width md \<and> 0 < height md")
  case True
  show ?thesis
  proof (cases "width md \<le> DEFAULT_MAX_WIDTH C \<and> height md \<le> DEFAULT_MAX_HEIGHT C")
    case within: True
    then have "resize_step W C b md = Inr (b, md)" by (simp add: resize_step_noop)
    then show ?thesis by blast
  next
    case False
    from resize_step_resized[OF assms(1) _ _ False assms(4,5)] True show ?thesis by blast
  qed
next
  case False
  then have "width md = 0 \<or> height md = 0" using assms by auto
  then show ?thesis by (auto simp: resize_step_def)
qed

lemma processImageBuffer_total:
  assumes "sharp_metadata W b = Inr md" "0 \<le> width md" "0 \<le> height md"
    "0 < DEFAULT_MAX_WIDTH C" "0 < DEFAULT_MAX_HEIGHT C"
  shows "\<exists>core final. processImageBuffer W C b fmt mimeType fx fp extra
           = Inr \<lparr>content = [MetadataPart (if width md * height md > 300000 \<and> fx = None \<and> fp = None
                                            then obj_set (obj_spread core extra) ''info''
                                                   (JStr (large_image_info W (width md) (height md)))
                                            else obj_spread core extra),
                              ImagePart final mimeType], isError = False\<rparr>"
proof -
  obtain b1 md1 where f: "focus_step W b md fx fp = Inr (b1, md1)" "sharp_metadata W b1 = Inr md1"
    "0 \<le> width md1" "0 \<le> height md1"
    using focus_step_total[OF assms(1-3)] by blast
  obtain b2 md2 where r: "resize_step W C b1 md1 = Inr (b2, md2)"
    using resize_step_total[OF f(2-4) assms(4,5)] by blast
  show ?thesis
    using assms(1) f(1) r by (simp add: processImageBuffer_def Let_def) blast
qed

lemma totalPages_in_metadata:
  "obj_get (obj_spread core (pdf_extra_metadata pg n d)) ''totalPages'' = Some (JNum n)"
  by (simp add: obj_spread_def pdf_extra_metadata_def obj_get_set)

lemma render_opened_out_of_range:
  assumes "doc_length doc = Some n" "n \<noteq> 0" "pg < 1 \<or> pg > n"
  shows "render_opened doc pg =
         Inl (''Page '' @ show_int pg @ '' is out of range. Document has '' @ show_int n @ '' page(s).'')"
  using assms by (simp add: render_opened_def)

lemma render_opened_in_range:
  assumes "doc_length doc = Some n" "n \<noteq> 0" "1 \<le> pg" "pg \<le> n" "doc_getPage doc pg = Inr png"
  shows "render_opened doc pg = Inr (Raw png, n)"
  using assms by (simp add: render_opened_def)

text \<open>
  C3. For a document that opens with a page count \<open>n\<close> other than 0: a requested page
  below 1 or above \<open>n\<close> yields the error result whose text is "Error: Page p is out of
  range. Document has n page(s).", with both numbers in it. A requested page from 1 to
  \<open>n\<close> yields a successful result whose metadata has \<open>totalPages\<close> equal to \<open>n\<close>
  whenever the renderer returns that page, sharp decodes it and the configured maximum
  size is positive; when the renderer throws on that page, the result is the error result
  with the renderer's message.
\<close>

theorem C3_page_range:
  assumes "pdf_open W input (of_int (requested_dpi C params) / 72) = Inr doc"
    and "doc_length doc = Some n" and "n \<noteq> 0"
  shows "(requested_page params < 1 \<or> requested_page params > n \<longrightarrow>
            catch_error (processPdf W C input params)
            = error_result (''Error: Page '' @ show_int (requested_page params)
                            @ '' is out of range. Document has '' @ show_int n @ '' page(s).''))
       \<and> (1 \<le> requested_page params \<and> requested_page params \<le> n \<longrightarrow>
            (\<forall>png md. doc_getPage doc (requested_page params) = Inr png \<longrightarrow>
               sharp_header W png = Inr md \<longrightarrow> 0 \<le> width md \<longrightarrow> 0 \<le> height md \<longrightarrow>
               0 < DEFAULT_MAX_WIDTH C \<longrightarrow> 0 < DEFAULT_MAX_HEIGHT C \<longrightarrow>
               (\<exists>obj final.
                   catch_error (processPdf W C input params)
                   = \<lparr>content = [MetadataPart obj, ImagePart final ''image/png''], isError = False\<rparr>
                 \<and> obj_get obj ''totalPages'' = Some (JNum n))))
       \<and> (1 \<le> requested_page params \<and> requested_page params \<le> n \<longrightarrow>
            (\<forall>e. doc_getPage doc (requested_page params) = Inl e \<longrightarrow>
               catch_error (processPdf W C input params) = error_result (''Error: '' @ e)))"
    (is "?outside \<and> ?inside \<and> ?failed")
proof (intro conjI)
  show ?failed
    using assms
    by (simp add: processPdf_def renderPdfPage_def render_opened_def catch_error_def)
  have render: "renderPdfPage W input (requested_page params) (requested_dpi C params)
                = render_opened doc (requested_page params)"
    using assms(1) by (simp add: renderPdfPage_def)
  show ?outside
  proof
    assume "requested_page params < 1 \<or> requested_page params > n"
    from render_opened_out_of_range[OF assms(2,3) this]
    show "catch_error (processPdf W C input params)
            = error_result (''Error: Page '' @ show_int (requested_page params)
                            @ '' is out of range. Document has '' @ show_int n @ '' page(s).'')"
      by (simp add: processPdf_def render catch_error_def)
  qed
  show ?inside
  proof (intro impI allI)
    fix png md
    assume range: "1 \<le> requested_page params \<and> requested_page params \<le> n"
      and png: "doc_getPage doc (requested_page params) = Inr png"
      and md: "sharp_header W png = Inr md" "0 \<le> width md" "0 \<le> height md"
      and cfg: "0 < DEFAULT_MAX_WIDTH C" "0 < DEFAULT_MAX_HEIGHT C"
    have r: "render_opened doc (requested_page params) = Inr (Raw png, n)"
      using render_opened_in_range[OF assms(2,3) _ _ png] range by simp
    have m: "sharp_metadata W (Raw png) = Inr md" using md(1) by simp
    let ?extra = "pdf_extra_metadata (requested_page params) n (requested_dpi C params)"
    let ?big = "width md * height md > 300000 \<and> focus_xyxy params = None \<and> focal_point params = None"
    obtain core final where p:
      "processImageBuffer W C (Raw png) ''png'' ''image/png'' (focus_xyxy params) (focal_point params) ?extra
       = Inr \<lparr>content = [MetadataPart (if ?big
                                        then obj_set (obj_spread core ?extra) ''info''
                                               (JStr (large_image_info W (width md) (height md)))
                                        else obj_spread core ?extra),
                          ImagePart final ''image/png''], isError = False\<rparr>"
      using processImageBuffer_total[OF m md(2,3) cfg] by blast
    let ?obj = "if ?big then obj_set (obj_spread core ?extra) ''info''
                               (JStr (large_image_info W (width md) (height md)))
                else obj_spread core ?extra"
    have "catch_error (processPdf W C input params)
          = \<lparr>content = [MetadataPart ?obj, ImagePart final ''image/png''], isError = False\<rparr>"
      by (simp only: processPdf_def Let_def render r sum.case prod.case p catch_error_def)
    moreover have "obj_get ?obj ''totalPages'' = Some (JNum n)"
      by (simp add: obj_get_set totalPages_in_metadata)
    ultimately show "\<exists>obj final.
             catch_error (processPdf W C input params)
             = \<lparr>content = [MetadataPart obj, ImagePart final ''image/png''], isError = False\<rparr>
           \<and> obj_get obj ''totalPages'' = Some (JNum n)"
      by blast
  qed
qed
theorem C3_page_range_witness:
  "pdf_open report_world ''/docs/report.pdf''
     (of_int (requested_dpi default_config
                \<lparr>focus_xyxy = None, focal_point = None, source = ''/docs/report.pdf'', page = Some 5,
                 dpi = None, mime_type = None\<rparr>) / 72) = Inr report_document
   \<and> doc_length report_document = Some 3
   \<and> catch_error (processPdf report_world default_config ''/docs/report.pdf''
                    \<lparr>focus_xyxy = None, focal_point = None, source = ''/docs/report.pdf'', page = Some 5,
                     dpi = None, mime_type = None\<rparr>)
       = error_result ''Error: Page 5 is out of range. Document has 3 page(s).''
   \<and> (\<exists>obj final.
         catch_error (processPdf report_world default_config ''/docs/report.pdf''
                        \<lparr>focus_xyxy = None, focal_point = None, source = ''/docs/report.pdf'', page = Some 2,
                         dpi = None, mime_type = None\<rparr>)
         = \<lparr>content = [MetadataPart obj, ImagePart final ''image/png''], isError = False\<rparr>
       \<and> obj_get obj ''totalPages'' = Some (JNum 3))"
proof -
  let ?p5 = "\<lparr>focus_xyxy = None, focal_point = None, source = ''/docs/report.pdf'', page = Some 5,
              dpi = None, mime_type = None\<rparr>"
  let ?p2 = "\<lparr>focus_xyxy = None, focal_point = None, source = ''/docs/report.pdf'', page = Some 2,
              dpi = None, mime_type = None\<rparr>"
  have o5: "pdf_open report_world ''/docs/report.pdf'' (of_int (requested_dpi default_config ?p5) / 72)
            = Inr report_document"
   and o2: "pdf_open report_world ''/docs/report.pdf'' (of_int (requested_dpi default_config ?p2) / 72)
            = Inr report_document"
    by (simp_all add: report_world_def solid_world_def empty_world_def)
  have n: "doc_length report_document = Some 3" "(3::int) \<noteq> 0"
    by (simp_all add: report_document_def)
  have s: "show_int 5 = ''5''" "show_int 3 = ''3''" by code_simp+
  have pg: "requested_page ?p5 = 5" "requested_page ?p2 = 2" by (simp_all add: requested_page_def)
  have e: "catch_error (processPdf report_world default_config ''/docs/report.pdf'' ?p5)
           = error_result ''Error: Page 5 is out of range. Document has 3 page(s).''"
    using C3_page_range[OF o5 n] by (simp add: pg s)
  have g: "doc_getPage report_document 2 = Inr ''rendered page''" by (simp add: report_document_def)
  have h: "sharp_header report_world ''rendered page'' = Inr \<lparr>width = 1240, height = 1754, format = ''png''\<rparr>"
    by (simp add: report_world_def solid_world_def empty_world_def)
  have "\<exists>obj final.
         catch_error (processPdf report_world default_config ''/docs/report.pdf'' ?p2)
         = \<lparr>content = [MetadataPart obj, ImagePart final ''image/png''], isError = False\<rparr>
       \<and> obj_get obj ''totalPages'' = Some (JNum 3)"
    using C3_page_range[OF o2 n] g h by (simp add: pg default_config_def)
  with o5 n e show ?thesis by blast
qed

text \<open>
  C3 without the proviso does not hold: in a world where the document opens with three
  pages and the renderer throws on page 2, the call for page 2, a page inside the range,
  ends in the error result that wraps the renderer's message.
\<close>

theorem C3_page_range_counterexample:
  "(case pdf_open damaged_report_world ''/docs/report.pdf'' (150 / 72) of
      Inl e \<Rightarrow> None | Inr doc \<Rightarrow> doc_length doc) = Some 3
   \<and> (1::int) \<le> 2 \<and> (2::int) \<le> 3
   \<and> catch_error (processPdf damaged_report_world default_config ''/docs/report.pdf''
                    \<lparr>focus_xyxy = None, focal_point = None, source = ''/docs/report.pdf'', page = Some 2,
                     dpi = None, mime_type = None\<rparr>)
       = \<lparr>content = [TextPart ''Error: Invalid page content''], isError = True\<rparr>
   \<and> readVisual damaged_report_world default_config
        \<lparr>focus_xyxy = None, focal_point = None, source = ''/docs/report.pdf'', page = Some 2,
         dpi = None, mime_type = None\<rparr>
       = \<lparr>content = [TextPart ''Error: Invalid page content''], isError = True\<rparr>"
  by code_simp

section \<open>Source classifier\<close>

lemma startsWith_iff: "startsWith s p \<longleftrightarrow> (\<exists>r. s = p @ r)"
proof
  assume "startsWith s p"
  then have "s = p @ drop (length p) s"
    unfolding startsWith_def by (metis append_take_drop_id)
  then show "\<exists>r. s = p @ r" ..
next
  assume "\<exists>r. s = p @ r"
  then show "startsWith s p" by (auto simp: startsWith_def)
qed

lemma str_includes_space: "str_includes s '' '' \<longleftrightarrow> CHR '' '' \<in> set s"
  by (induction s) (auto simp: startsWith_def)

lemma dot_not_alnum: "\<not> is_alnum CHR ''.''"
  by (simp add: is_alnum_def is_lower_def is_upper_def is_digit_def code_unit_def)

lemma takeWhile_run: "\<forall>x\<in>set xs. P x \<Longrightarrow> \<not> P y \<Longrightarrow> takeWhile P (xs @ y # ys) = xs"
  by (induction xs) auto

lemma dropWhile_run: "\<forall>x\<in>set xs. P x \<Longrightarrow> \<not> P y \<Longrightarrow> dropWhile P (xs @ y # ys) = y # ys"
  by (induction xs) auto

lemma extension_regex_iff:
  "extension_regex s \<longleftrightarrow> (\<exists>p e. s = p @ ''.'' @ e \<and> e \<noteq> [] \<and> list_all is_alnum e)"
proof
  assume "extension_regex s"
  then obtain rest where t: "takeWhile is_alnum (rev s) \<noteq> []"
    and d: "dropWhile is_alnum (rev s) = CHR ''.'' # rest"
    by (auto simp: extension_regex_def split: list.splits)
  have "rev s = takeWhile is_alnum (rev s) @ CHR ''.'' # rest"
    using takeWhile_dropWhile_id[of is_alnum "rev s"] d by simp
  then have "s = rev rest @ ''.'' @ rev (takeWhile is_alnum (rev s))"
    by (metis append_Cons append_Nil rev.simps(2) rev_append rev_rev_ident append_assoc)
  moreover have "list_all is_alnum (rev (takeWhile is_alnum (rev s)))"
    by (simp add: list_all_iff) (meson set_takeWhileD)
  ultimately show "\<exists>p e. s = p @ ''.'' @ e \<and> e \<noteq> [] \<and> list_all is_alnum e"
    using t by (metis rev_is_Nil_conv)
next
  assume "\<exists>p e. s = p @ ''.'' @ e \<and> e \<noteq> [] \<and> list_all is_alnum e"
  then obtain p e where s: "s = p @ ''.'' @ e" and e: "e \<noteq> []" "list_all is_alnum e" by blast
  have r: "rev s = rev e @ CHR ''.'' # rev p" using s by simp
  have all: "\<forall>x\<in>set (rev e). is_alnum x" using e(2) by (simp add: list_all_iff)
  have "takeWhile is_alnum (rev s) = rev e"
    unfolding r using takeWhile_run[OF all dot_not_alnum] .
  moreover have "dropWhile is_alnum (rev s) = CHR ''.'' # rev p"
    unfolding r using dropWhile_run[OF all dot_not_alnum] .
  ultimately show "extension_regex s" using e(1) by (simp add: extension_regex_def)
qed

lemma eq_not_base64: "\<not> is_base64_char CHR ''=''"
  by (simp add: is_base64_char_def is_lower_def is_upper_def is_digit_def code_unit_def)

lemma base64_regex_iff:
  "base64_regex s \<longleftrightarrow>
     (\<exists>body pad. s = body @ pad \<and> body \<noteq> [] \<and> list_all is_base64_char body
                 \<and> (pad = [] \<or> pad = ''='' \<or> pad = ''==''))"
proof
  assume a: "base64_regex s"
  have "s = takeWhile is_base64_char s @ dropWhile is_base64_char s" by simp
  moreover have "list_all is_base64_char (takeWhile is_base64_char s)"
    by (simp add: list_all_iff) (meson set_takeWhileD)
  ultimately show "\<exists>body pad. s = body @ pad \<and> body \<noteq> [] \<and> list_all is_base64_char body
                 \<and> (pad = [] \<or> pad = ''='' \<or> pad = ''=='')"
    using a unfolding base64_regex_def Let_def by blast
next
  assume "\<exists>body pad. s = body @ pad \<and> body \<noteq> [] \<and> list_all is_base64_char body
                 \<and> (pad = [] \<or> pad = ''='' \<or> pad = ''=='')"
  then obtain body pad where s: "s = body @ pad" and b: "body \<noteq> []" "list_all is_base64_char body"
    and p: "pad = [] \<or> pad = ''='' \<or> pad = ''==''" by blast
  have all: "\<forall>x\<in>set body. is_base64_char x" using b(2) by (simp add: list_all_iff)
  have "takeWhile is_base64_char s = body \<and> dropWhile is_base64_char s = pad"
  proof (cases pad)
    case Nil
    then show ?thesis unfolding s using all by simp
  next
    case (Cons y ys)
    then have "\<not> is_base64_char y" using p eq_not_base64 by auto
    then show ?thesis unfolding s Cons
      using takeWhile_run[OF all, of y ys] dropWhile_run[OF all, of y ys] by simp
  qed
  then show "base64_regex s" using b(1) p by (simp add: base64_regex_def)
qed

lemma drive_regex_iff:
  "drive_regex s \<longleftrightarrow> (\<exists>c sep r. s = c # CHR '':'' # sep # r \<and> is_letter c \<and> is_separator sep)"
  by (auto simp: drive_regex_def split: list.splits)

lemma relative_regex_cases:
  assumes "relative_regex s"
  shows "startsWith s ''/'' \<or> startsWith s ''./'' \<or> startsWith s ''../''
         \<or> (\<exists>r. s = backslash # r) \<or> (\<exists>r. s = CHR ''.'' # backslash # r)
         \<or> (\<exists>r. s = CHR ''.'' # CHR ''.'' # backslash # r)"
  using assms by (auto simp: relative_regex_def is_separator_def startsWith_def split: list.splits)

lemma relative_regex_intro:
  "startsWith s ''/'' \<or> startsWith s ''./'' \<or> startsWith s ''../'' \<Longrightarrow> relative_regex s"
  by (auto simp: relative_regex_def is_separator_def startsWith_def split: list.splits)

lemma first_char_not_base64:
  assumes "\<not> is_space c" "\<not> is_base64_char c"
  shows "\<not> base64_regex (strip_whitespace (c # r))"
  using assms by (simp add: base64_regex_def strip_whitespace_def)

lemma backslash_class: "\<not> is_space backslash" "\<not> is_base64_char backslash"
  by (simp_all add: backslash_def is_space_def is_base64_char_def is_lower_def is_upper_def is_digit_def code_unit_def)

lemma dot_class: "\<not> is_space CHR ''.''" "\<not> is_base64_char CHR ''.''"
  by (simp_all add: is_space_def is_base64_char_def is_lower_def is_upper_def is_digit_def code_unit_def)

lemma backslash_forms_not_base64:
  assumes "(\<exists>r. s = backslash # r) \<or> (\<exists>r. s = CHR ''.'' # backslash # r)
         \<or> (\<exists>r. s = CHR ''.'' # CHR ''.'' # backslash # r)"
  shows "\<not> isValidBase64 s"
proof -
  from assms have "\<not> base64_regex (strip_whitespace s)"
    using first_char_not_base64[OF backslash_class] first_char_not_base64[OF dot_class] by auto
  then show ?thesis by (simp add: isValidBase64_def Let_def)
qed

lemma detectSourceType_decision:
  "detectSourceType W s =
     (if startsWith s ''http://'' \<or> startsWith s ''https://'' then Url
      else if startsWith s ''data:'' then Base64
      else if drive_regex s \<or> startsWith s [backslash, backslash] \<or> startsWith s ''/''
              \<or> startsWith s ''./'' \<or> startsWith s ''../''
              \<or> (extension_regex s \<and> \<not> str_includes s '' '' \<and> length s < 500) then File
      else if length s \<ge> 100 \<and> length (strip_whitespace s) mod 4 = 0 \<and> base64_regex (strip_whitespace s)
      then Base64
      else File)"
proof -
  have v: "isValidBase64 s \<longleftrightarrow>
           length s \<ge> 100 \<and> length (strip_whitespace s) mod 4 = 0 \<and> base64_regex (strip_whitespace s)"
    by (auto simp: isValidBase64_def Let_def)
  let ?shape = "drive_regex s \<or> startsWith s [backslash, backslash] \<or> startsWith s ''/''
              \<or> startsWith s ''./'' \<or> startsWith s ''../''
              \<or> (extension_regex s \<and> \<not> str_includes s '' '' \<and> length s < 500)"
  have shape_path: "?shape \<Longrightarrow> isFilePath s"
    using relative_regex_intro[of s] by (auto simp: isFilePath_def)
  have path_shape: "isFilePath s \<Longrightarrow> \<not> ?shape \<Longrightarrow> \<not> isValidBase64 s"
  proof -
    assume p: "isFilePath s" and n: "\<not> ?shape"
    then have "relative_regex s" by (auto simp: isFilePath_def split: if_splits)
    from relative_regex_cases[OF this] n backslash_forms_not_base64 show ?thesis by blast
  qed
  show ?thesis
  proof (cases "isFilePath s")
    case True
    then show ?thesis using path_shape v by (auto simp: detectSourceType_def)
  next
    case False
    then have "\<not> ?shape" using shape_path by blast
    then show ?thesis using False v by (auto simp: detectSourceType_def)
  qed
qed


text \<open>
  C5. The source classifier is a total function of the reference string alone (the file
  system lookup it makes does not change the answer) and it is this decision list, first
  match wins: a string that starts with \<open>http://\<close> or \<open>https://\<close> is a URL; else one
  that starts with \<open>data:\<close> is inline data; else one with the shape of a path (a drive
  letter, a colon and a separator; two backslashes; a leading \<open>/\<close>, \<open>./\<close> or
  \<open>../\<close>; or an ending made of a dot and one or more letters or digits, in a string
  without a space and shorter than 500) is a file path; else one of length 100 or more
  that, with its whitespace removed, has a length divisible by 4 and consists of one or
  more base64 characters followed by at most two \<open>=\<close> is inline data; every other string
  is a file path.
\<close>

theorem C5_classifier_decision_list:
  "detectSourceType W s =
     (if (\<exists>r. s = ''http://'' @ r) \<or> (\<exists>r. s = ''https://'' @ r) then Url
      else if (\<exists>r. s = ''data:'' @ r) then Base64
      else if (\<exists>c sep r. s = c # CHR '':'' # sep # r \<and> is_letter c \<and> is_separator sep)
              \<or> (\<exists>r. s = [backslash, backslash] @ r)
              \<or> (\<exists>r. s = ''/'' @ r) \<or> (\<exists>r. s = ''./'' @ r) \<or> (\<exists>r. s = ''../'' @ r)
              \<or> ((\<exists>p e. s = p @ ''.'' @ e \<and> e \<noteq> [] \<and> list_all is_alnum e)
                  \<and> CHR '' '' \<notin> set s \<and> length s < 500) then File
      else if length s \<ge> 100 \<and> length (strip_whitespace s) mod 4 = 0
              \<and> (\<exists>body pad. strip_whitespace s = body @ pad \<and> body \<noteq> []
                     \<and> list_all is_base64_char body \<and> (pad = [] \<or> pad = ''='' \<or> pad = ''==''))
      then Base64
      else File)"
  unfolding detectSourceType_decision startsWith_iff drive_regex_iff extension_regex_iff
    str_includes_space base64_regex_iff
  by (rule refl)

theorem C5_classifier_decision_list_witness:
  "detectSourceType empty_world ''https://example.com/image.pdf'' = Url
   \<and> detectSourceType empty_world ''data:image/png;base64,iVBORw0KGgo='' = Base64
   \<and> detectSourceType empty_world ''/home/user/image.jpg'' = File"
  using C5_classifier_decision_list[of empty_world "''https://example.com/image.pdf''"]
        C5_classifier_decision_list[of empty_world "''data:image/png;base64,iVBORw0KGgo=''"]
        C5_classifier_decision_list[of empty_world "''/home/user/image.jpg''"]
  by simp

text \<open>The inputs of the repository's own test of the classifier.\<close>

lemma detectSourceType_tests:
  "detectSourceType W ''http://example.com/image.png'' = Url"
  "detectSourceType W ''D:/Documents/doc.pdf'' = File"
  "detectSourceType W ''./test.png'' = File"
  "detectSourceType W ''../folder/doc.pdf'' = File"
  "detectSourceType W ''some_file.jpg'' = File"
  "detectSourceType W ''YWFhYWFhYWFhYWFhYWFhYWFhYWFhYWFhYWFhYWFhYWFhYWFhYWFhYWFhYWFhYWFhYWFhYWFhYWFhYWFhYWFhYWFhYWFhYWFhYWFhYWFhYWFhYWFhYWFhYWFhYWFhYWFhYWFhYQ=='' = Base64"
  unfolding detectSourceType_decision by code_simp+

section \<open>Inline data\<close>

lemma extractPdfFromBase64_rejects:
  "\<not> pdf_utils_isValidBase64 (ExtractPdfFromBase64Params.base64 params) \<Longrightarrow>
   extractPdfFromBase64 W C params = error_result ''Error: Invalid base64 string''"
  "pdf_utils_isValidBase64 (ExtractPdfFromBase64Params.base64 params) \<Longrightarrow>
   length (Buffer_from_base64 (cleanBase64 (ExtractPdfFromBase64Params.base64 params))) = 0 \<Longrightarrow>
   extractPdfFromBase64 W C params = error_result ''Error: Invalid base64 string - decoded to empty buffer''"
  by (simp_all add: extractPdfFromBase64_def catch_error_def)

lemma handleBase64_rejects:
  assumes "\<not> startsWith (source params) ''data:''"
  shows "\<not> isValidBase64 (strip_whitespace (source params)) \<Longrightarrow>
         handleBase64 W C params = Inr (error_result ''Error: Invalid base64 string'')"
    and "isValidBase64 (strip_whitespace (source params)) \<Longrightarrow>
         length (Buffer_from_base64 (strip_whitespace (source params))) = 0 \<Longrightarrow>
         handleBase64 W C params = Inr (error_result ''Error: Invalid base64 string - decoded to empty buffer'')"
  using assms by (simp_all add: handleBase64_def Let_def)

lemma extractImageFromBase64_empty:
  "length (Buffer_from_base64 (ExtractImageFromBase64Params.base64 params)) = 0 \<Longrightarrow>
   extractImageFromBase64 W C params
   = error_result ''Error: Invalid base64 string - Invalid base64 string - decoded to empty buffer''"
  by (simp add: extractImageFromBase64_def catch_error_def)

text \<open>
  C6 fails for \<open>extractImageFromBase64\<close>. Its sibling entry points test the structure of
  the text before decoding; this one only tests whether the decoded buffer is empty, and
  Node's decoder skips what it cannot read. Base64 text without its padding (a length that
  is no multiple of 4) and base64 text with an exclamation mark in it both fail the
  structural test of the siblings, decode to the bytes of the well-formed text, and come
  back as a successful result.
\<close>

theorem C6_image_base64_accepts_malformed:
  "length (strip_whitespace pixel_png_unpadded) mod 4 = 2
   \<and> \<not> pdf_utils_isValidBase64 pixel_png_unpadded
   \<and> \<not> list_all (\<lambda>c. is_base64_char c \<or> c = CHR ''='') pixel_png_illegal_char
   \<and> \<not> pdf_utils_isValidBase64 pixel_png_illegal_char
   \<and> extractImageFromBase64 pixel_world default_config
        \<lparr>focus_xyxy = None, focal_point = None, resize = True, max_width = 512, max_height = 512,
         ExtractImageFromBase64Params.base64 = pixel_png_unpadded,
         ExtractImageFromBase64Params.mime_type = ''image/png''\<rparr>
       = \<lparr>content = [MetadataPart [(''width'', JNum 1), (''height'', JNum 1), (''format'', JStr ''png''),
                                    (''size'', JNum 0)],
                      ImagePart (Encoded PngEncoder (Raw (Buffer_from_base64 pixel_png_base64))) ''image/png''],
          isError = False\<rparr>
   \<and> extractImageFromBase64 pixel_world default_config
        \<lparr>focus_xyxy = None, focal_point = None, resize = True, max_width = 512, max_height = 512,
         ExtractImageFromBase64Params.base64 = pixel_png_illegal_char,
         ExtractImageFromBase64Params.mime_type = ''image/png''\<rparr>
       = \<lparr>content = [MetadataPart [(''width'', JNum 1), (''height'', JNum 1), (''format'', JStr ''png''),
                                    (''size'', JNum 0)],
                      ImagePart (Encoded PngEncoder (Raw (Buffer_from_base64 pixel_png_base64))) ''image/png''],
          isError = False\<rparr>"
  by code_simp

end
